theory Spec2Isabelle
  imports Complex_Main "HOL-Library.Word"
begin

unbundle bit_operations_syntax

section \<open>Raster mosaicking (scripts/preprocessing/r/mosaic\_rasters.R)\<close>

text \<open>
  A raster is read as a partial function from grid cells to values: a cell the raster does
  not cover, and a cell holding \<open>NA\<close>, both read \<open>None\<close>. The extent of a raster is the
  domain of that function, so two equal functions have the same extent and the same
  per-pixel values. Cell values are real numbers (the rounding of floating point is not
  part of the model).

  The three functions of the script call four primitives of the raster library
  (\<open>terra::sprc\<close>, \<open>terra::mosaic\<close>, \<open>terra::tmpFiles\<close>, \<open>terra::writeRaster\<close>) and
  \<open>list.files\<close>. The world they act on is the disk (a map from paths to rasters) and the
  sequence of library calls made so far. The mosaic primitive is a parameter \<open>mos\<close> of
  each function; \<open>terra_mosaic\<close> below is the library's cell-wise aggregation.
\<close>

type_synonym path = string
type_synonym cell = "int \<times> int"
type_synonym raster = "cell \<Rightarrow> real option"

datatype r_error = Stop string

datatype lib_call =
    Call_sprc "path list"
  | Call_mosaic_collection
  | Call_mosaic_pair
  | Call_tmpFiles
  | Call_writeRaster path

record 'r world =
  disk :: "path \<rightharpoonup> 'r"
  calls :: "lib_call list"

definition log_call :: "lib_call \<Rightarrow> 'r world \<Rightarrow> 'r world" where
  "log_call c w = w\<lparr>calls := calls w @ [c]\<rparr>"

text \<open>\<open>terra::sprc(files)\<close>: opens every file of the vector; a path that is not on the disk
  stops the function.\<close>

fun open_all :: "(path \<rightharpoonup> 'r) \<Rightarrow> path list \<Rightarrow> r_error + 'r list" where
  "open_all d [] = Inr []"
| "open_all d (p # ps) =
     (case d p of
        None \<Rightarrow> Inl (Stop (''file does not exist: '' @ p))
      | Some r \<Rightarrow> (case open_all d ps of Inl e \<Rightarrow> Inl e | Inr rs \<Rightarrow> Inr (r # rs)))"

definition sprc :: "'r world \<Rightarrow> path list \<Rightarrow> (r_error + 'r list) \<times> 'r world" where
  "sprc w fl = (open_all (disk w) fl, log_call (Call_sprc fl) w)"

text \<open>\<open>terra::writeRaster(m, filename, overwrite = TRUE)\<close>.\<close>

definition writeRaster :: "'r world \<Rightarrow> 'r \<Rightarrow> path \<Rightarrow> 'r world" where
  "writeRaster w m filename =
     log_call (Call_writeRaster filename) (w\<lparr>disk := (disk w)(filename \<mapsto> m)\<rparr>)"

subsection \<open>The library's mosaic\<close>

text \<open>
  \<open>terra::mosaic\<close> combines rasters cell by cell: the value of a cell of the result is the
  aggregation function applied to the values of the inputs that have one there, and the
  cell is empty when no input has a value there. The aggregation function is named by a
  string in R (\<open>"mean"\<close> is the default of all three functions of the script).
\<close>

datatype agg = Sum | Mean | Median | Min | Max

definition agg_of_name :: "string \<Rightarrow> agg option" where
  "agg_of_name s =
     (if s = ''sum'' then Some Sum
      else if s = ''mean'' then Some Mean
      else if s = ''median'' then Some Median
      else if s = ''min'' then Some Min
      else if s = ''max'' then Some Max
      else None)"

definition median :: "real list \<Rightarrow> real" where
  "median vs =
     (let s = sort vs; n = length s
      in if even n then (s ! (n div 2 - 1) + s ! (n div 2)) / 2 else s ! (n div 2))"

fun aggregate :: "agg \<Rightarrow> real list \<Rightarrow> real" where
  "aggregate Sum vs = sum_list vs"
| "aggregate Mean vs = sum_list vs / real (length vs)"
| "aggregate Median vs = median vs"
| "aggregate Min vs = fold min (tl vs) (hd vs)"
| "aggregate Max vs = fold max (tl vs) (hd vs)"

definition cell_values :: "raster list \<Rightarrow> cell \<Rightarrow> real list" where
  "cell_values rs c = List.map_filter (\<lambda>r. r c) rs"

definition terra_mosaic :: "agg \<Rightarrow> raster list \<Rightarrow> raster" where
  "terra_mosaic f rs =
     (\<lambda>c. let vs = cell_values rs c in if vs = [] then None else Some (aggregate f vs))"

subsection \<open>mosaic\_rasters\_in\_list\<close>

definition mosaic_rasters_in_list ::
  "('f \<Rightarrow> 'r list \<Rightarrow> 'r) \<Rightarrow> 'r world \<Rightarrow> path list \<Rightarrow> path \<Rightarrow> 'f \<Rightarrow> (r_error + 'r) \<times> 'r world"
where
  "mosaic_rasters_in_list mos w raster_files export_filename f =
     (if length raster_files = 0
      then (Inl (Stop ''No raster files provided for mosaicking.''), w)
      else
        (case sprc w raster_files of
           (Inl e, w1) \<Rightarrow> (Inl e, w1)
         | (Inr rsrc, w1) \<Rightarrow>
             (let m = mos f rsrc;
                  w2 = log_call Call_mosaic_collection w1;
                  w3 = writeRaster w2 m export_filename
              in (Inr m, w3))))"

subsection \<open>mosaic\_rasters\_in\_directory\<close>

text \<open>
  \<open>list.files(path, pattern, recursive = TRUE, full.names = TRUE)\<close> is the parameter
  \<open>list_files\<close>: given the directory and the pattern it returns the matching paths.
\<close>

text \<open>The pattern of the script, a backslash followed by \<open>.tif$\<close>.\<close>

definition tif_pattern :: string where
  "tif_pattern = CHR 0x5C # ''.tif$''"

definition endsWith :: "string \<Rightarrow> string \<Rightarrow> bool" where
  "endsWith s t = (length t \<le> length s \<and> drop (length s - length t) s = t)"

definition mosaic_rasters_in_directory ::
  "('f \<Rightarrow> 'r list \<Rightarrow> 'r) \<Rightarrow> (path \<Rightarrow> string \<Rightarrow> path list) \<Rightarrow> 'r world \<Rightarrow> path \<Rightarrow> path \<Rightarrow> 'f
     \<Rightarrow> (r_error + 'r) \<times> 'r world"
where
  "mosaic_rasters_in_directory mos list_files w path_name export_filename f =
     (let path_name1 = (if \<not> endsWith path_name ''/'' then path_name @ ''/'' else path_name);
          fl = list_files path_name1 tif_pattern
      in if length fl = 0
         then (Inl (Stop ''No .tif files found in the specified directory.''), w)
         else
           (case sprc w fl of
              (Inl e, w1) \<Rightarrow> (Inl e, w1)
            | (Inr rsrc, w1) \<Rightarrow>
                (let m = mos f rsrc;
                     w2 = log_call Call_mosaic_collection w1;
                     w3 = writeRaster w2 m export_filename
                 in (Inr m, w3))))"

subsection \<open>mosaic\_rasters\_in\_batches\<close>

text \<open>
  \<open>seq(1, num_files, by = batch_size)\<close> for non-negative integers: R computes
  \<open>n = (to - from) / by\<close> and returns \<open>from + (0:n) * by\<close>. A zero step is an error unless
  \<open>to = from\<close>, and \<open>to < from\<close> with a positive step is an error.
\<close>

definition seq_by :: "nat \<Rightarrow> nat \<Rightarrow> r_error + nat list" where
  "seq_by num_files batch_size =
     (if batch_size = 0
      then (if num_files = 1 then Inr [1] else Inl (Stop ''invalid (to - from)/by in seq(.)''))
      else if num_files = 0 then Inl (Stop ''wrong sign in by argument'')
      else Inr (map (\<lambda>k. 1 + k * batch_size) [0..<(num_files - 1) div batch_size + 1]))"

text \<open>
  \<open>x[i:j]\<close> with one-based \<open>i\<close>: the elements at positions \<open>i, i+1, ..., j\<close> when
  \<open>i \<le> j\<close>, and at \<open>i, i-1, ..., j\<close> otherwise, where position \<open>0\<close> selects nothing. The
  loop calls it with \<open>1 \<le> i \<le> length x\<close> and \<open>j \<le> length x\<close> only.
\<close>

definition r_slice :: "'a list \<Rightarrow> nat \<Rightarrow> nat \<Rightarrow> 'a list" where
  "r_slice x i j =
     (if i \<le> j then take (Suc j - i) (drop (i - 1) x)
      else rev (take (Suc i - max j 1) (drop (max j 1 - 1) x)))"

definition batch_files :: "'a list \<Rightarrow> nat \<Rightarrow> nat \<Rightarrow> 'a list" where
  "batch_files raster_files batch_size i =
     r_slice raster_files i (min (i + batch_size - 1) (length raster_files))"

text \<open>One iteration of the loop body: \<open>fm\<close> is \<open>final_mosaic\<close>, \<open>None\<close> for \<open>NULL\<close>.\<close>

definition batch_body ::
  "('f \<Rightarrow> 'r list \<Rightarrow> 'r) \<Rightarrow> 'f \<Rightarrow> nat \<Rightarrow> path list \<Rightarrow> nat \<Rightarrow> 'r option \<times> 'r world
     \<Rightarrow> (r_error + 'r option) \<times> 'r world"
where
  "batch_body mos f batch_size raster_files i s =
     (let (fm, w) = s;
          batch = batch_files raster_files batch_size i
      in case sprc w batch of
           (Inl e, w1) \<Rightarrow> (Inl e, w1)
         | (Inr rsrc, w1) \<Rightarrow>
             (let batch_mosaic = mos f rsrc;
                  w2 = log_call Call_mosaic_collection w1;
                  (fm', w3) =
                    (case fm of
                       None \<Rightarrow> (batch_mosaic, w2)
                     | Some final_mosaic \<Rightarrow>
                         (mos f [final_mosaic, batch_mosaic], log_call Call_mosaic_pair w2));
                  w4 = log_call Call_tmpFiles w3
              in (Inr (Some fm'), w4)))"

fun batch_loop ::
  "('f \<Rightarrow> 'r list \<Rightarrow> 'r) \<Rightarrow> 'f \<Rightarrow> nat \<Rightarrow> path list \<Rightarrow> nat list \<Rightarrow> 'r option \<times> 'r world
     \<Rightarrow> (r_error + 'r option) \<times> 'r world"
where
  "batch_loop mos f batch_size raster_files [] s = (Inr (fst s), snd s)"
| "batch_loop mos f batch_size raster_files (i # rest) s =
     (case batch_body mos f batch_size raster_files i s of
        (Inl e, w1) \<Rightarrow> (Inl e, w1)
      | (Inr fm, w1) \<Rightarrow> batch_loop mos f batch_size raster_files rest (fm, w1))"

definition mosaic_rasters_in_batches ::
  "('f \<Rightarrow> 'r list \<Rightarrow> 'r) \<Rightarrow> 'r world \<Rightarrow> path list \<Rightarrow> path \<Rightarrow> 'f \<Rightarrow> nat
     \<Rightarrow> (r_error + 'r) \<times> 'r world"
where
  "mosaic_rasters_in_batches mos w raster_files export_filename f batch_size =
     (if length raster_files = 0
      then (Inl (Stop ''No raster files provided for mosaicking.''), w)
      else
        (case seq_by (length raster_files) batch_size of
           Inl e \<Rightarrow> (Inl e, w)
         | Inr starts \<Rightarrow>
             (case batch_loop mos f batch_size raster_files starts (None, w) of
                (Inl e, w1) \<Rightarrow> (Inl e, w1)
              | (Inr None, w1) \<Rightarrow>
                  (Inl (Stop ''writeRaster: final_mosaic is NULL''), w1)
              | (Inr (Some final_mosaic), w1) \<Rightarrow>
                  (Inr final_mosaic, writeRaster w1 final_mosaic export_filename))))"

subsection \<open>What a run of the batch loop does\<close>

text \<open>
  The library calls of the loop over a list of batches, and the value of \<open>final_mosaic\<close>
  after it: the first batch mosaic is taken as it is, each later one is merged into the
  running mosaic by a two-raster call of the mosaic primitive.
\<close>

fun loop_calls :: "bool \<Rightarrow> path list list \<Rightarrow> lib_call list" where
  "loop_calls first [] = []"
| "loop_calls first (b # bs) =
     [Call_sprc b, Call_mosaic_collection] @ (if first then [] else [Call_mosaic_pair])
       @ [Call_tmpFiles] @ loop_calls False bs"

fun loop_value :: "('f \<Rightarrow> 'r list \<Rightarrow> 'r) \<Rightarrow> 'f \<Rightarrow> (path \<rightharpoonup> 'r) \<Rightarrow> 'r option \<Rightarrow> path list list \<Rightarrow> 'r option" where
  "loop_value mos f d fm [] = fm"
| "loop_value mos f d fm (b # bs) =
     loop_value mos f d
       (Some (case fm of None \<Rightarrow> mos f (map (\<lambda>p. the (d p)) b)
              | Some m \<Rightarrow> mos f [m, mos f (map (\<lambda>p. the (d p)) b)])) bs"

subsection \<open>Three tiles over one cell\<close>

definition unit_raster :: "real \<Rightarrow> raster" where
  "unit_raster v = (\<lambda>c. if c = (0, 0) then Some v else None)"

definition three_tiles :: "raster world" where
  "three_tiles =
     \<lparr>disk = [''a.tif'' \<mapsto> unit_raster 0, ''b.tif'' \<mapsto> unit_raster 0, ''c.tif'' \<mapsto> unit_raster 3],
      calls = []\<rparr>"

definition value_at :: "(r_error + raster) \<times> raster world \<Rightarrow> cell \<Rightarrow> real option" where
  "value_at res c = (case fst res of Inl e \<Rightarrow> None | Inr m \<Rightarrow> m c)"

section \<open>Properties of the batch loop\<close>

lemma open_all_present:
  "set fl \<subseteq> dom d \<Longrightarrow> open_all d fl = Inr (map (\<lambda>p. the (d p)) fl)"
  by (induction fl) auto

lemma seq_by_pos:
  "0 < n \<Longrightarrow> 0 < b \<Longrightarrow> seq_by n b = Inr (map (\<lambda>k. 1 + k * b) [0..<(n - 1) div b + 1])"
  by (simp add: seq_by_def)

lemma batch_files_take_drop:
  assumes "0 < b" "k * b < length xs"
  shows "batch_files xs b (Suc (k * b)) = take b (drop (k * b) xs)"
proof -
  have "take (Suc (min (k * b + b) (length xs)) - Suc (k * b)) (drop (k * b) xs) = take b (drop (k * b) xs)"
    using assms by (cases "k * b + b \<le> length xs") (simp_all add: min_def)
  then show ?thesis
    using assms by (simp add: batch_files_def r_slice_def)
qed

lemma concat_chunks:
  "0 < b \<Longrightarrow> concat (map (\<lambda>k. take b (drop (k * b) xs)) [0..<m]) = take (m * b) xs"
proof (induction m)
  case 0
  then show ?case by simp
next
  case (Suc m)
  have "take (m * b) xs @ take b (drop (m * b) xs) = take (m * b + b) xs"
    by (simp add: take_add)
  with Suc show ?case by (simp add: add.commute)
qed


lemma batch_loop_present:
  assumes "\<forall>i\<in>set starts. set (batch_files raster_files b i) \<subseteq> dom (disk w)"
  shows "batch_loop mos f b raster_files starts (fm, w)
         = (Inr (loop_value mos f (disk w) fm (map (batch_files raster_files b) starts)),
            w\<lparr>calls := calls w @ loop_calls (fm = None) (map (batch_files raster_files b) starts)\<rparr>)"
  using assms
proof (induction starts arbitrary: fm w)
  case Nil
  then show ?case by simp
next
  case (Cons i rest)
  have here: "set (batch_files raster_files b i) \<subseteq> dom (disk w)"
    using Cons.prems by simp
  obtain fm' w' where body: "batch_body mos f b raster_files i (fm, w) = (Inr (Some fm'), w')"
    and fm': "fm' = (case fm of None \<Rightarrow> mos f (map (\<lambda>p. the (disk w p)) (batch_files raster_files b i))
              | Some m \<Rightarrow> mos f [m, mos f (map (\<lambda>p. the (disk w p)) (batch_files raster_files b i))])"
    and w': "w' = w\<lparr>calls := calls w @ [Call_sprc (batch_files raster_files b i), Call_mosaic_collection]
          @ (if fm = None then [] else [Call_mosaic_pair]) @ [Call_tmpFiles]\<rparr>"
    using open_all_present[OF here]
    by (cases fm) (simp_all add: batch_body_def sprc_def log_call_def Let_def)
  have rest: "\<forall>i\<in>set rest. set (batch_files raster_files b i) \<subseteq> dom (disk w')"
    using Cons.prems w' by simp
  show ?case
    using Cons.IH[OF rest, of "Some fm'"] body fm' w' by simp
qed


lemma loop_value_Some:
  "fm \<noteq> None \<or> bs \<noteq> [] \<Longrightarrow> \<exists>m. loop_value mos f d fm bs = Some m"
  by (induction bs arbitrary: fm) auto

lemma r_slice_positions:
  assumes "1 \<le> i" "j \<le> length x"
  shows "take (Suc j - i) (drop (i - 1) x) = map (\<lambda>p. x ! (p - 1)) [i..<Suc j]"
proof (rule nth_equalityI)
  show "length (take (Suc j - i) (drop (i - 1) x)) = length (map (\<lambda>p. x ! (p - 1)) [i..<Suc j])"
    using assms by auto
next
  fix k assume "k < length (take (Suc j - i) (drop (i - 1) x))"
  then have k: "k < Suc j - i" by simp
  then have "[i..<Suc j] ! k = i + k" by (simp del: upt_Suc)
  then show "take (Suc j - i) (drop (i - 1) x) ! k = map (\<lambda>p. x ! (p - 1)) [i..<Suc j] ! k"
    using k assms by (simp del: upt_Suc)
qed

lemma start_in_range:
  assumes "0 < length xs" "k < (length xs - 1) div b + 1"
  shows "k * b < length xs"
proof -
  have "k \<le> (length xs - 1) div b" using assms(2) by simp
  then have "k * b \<le> (length xs - 1) div b * b" by simp
  also have "\<dots> \<le> length xs - 1" by simp
  finally show ?thesis using assms(1) by linarith
qed

lemma batches_cover:
  assumes "raster_files \<noteq> []" "1 \<le> batch_size"
  shows "concat (map (batch_files raster_files batch_size)
           (map (\<lambda>k. 1 + k * batch_size) [0..<(length raster_files - 1) div batch_size + 1]))
         = raster_files"
proof -
  let ?n = "length raster_files" and ?b = batch_size
  define m where "m = (?n - 1) div ?b + 1"
  have b: "0 < ?b" and n: "0 < ?n" using assms by auto
  have in_range: "k * ?b < ?n" if "k < m" for k
    using start_in_range[OF n] that unfolding m_def by blast
  have eq: "map (batch_files raster_files ?b) (map (\<lambda>k. 1 + k * ?b) [0..<m])
        = map (\<lambda>k. take ?b (drop (k * ?b) raster_files)) [0..<m]"
    using in_range b by (simp add: batch_files_take_drop)
  have le: "?n \<le> m * ?b"
  proof -
    have "?n - 1 < ((?n - 1) div ?b + 1) * ?b"
      using b by (metis Suc_eq_plus1 dividend_less_div_times mult.commute mult_Suc_right)
    then show ?thesis unfolding m_def by linarith
  qed
  have "concat (map (\<lambda>k. take ?b (drop (k * ?b) raster_files)) [0..<m]) = raster_files"
    using concat_chunks[OF b, of raster_files m] le by simp
  then have "concat (map (batch_files raster_files ?b) (map (\<lambda>k. 1 + k * ?b) [0..<m]))
      = raster_files"
    unfolding eq .
  then show ?thesis unfolding m_def .
qed

section \<open>Empty input\<close>

text \<open>
  C9. With an empty vector of files (or a directory in which \<open>list.files\<close> finds no
  \<open>.tif\<close> file) each function stops with its error message, and the world is the one it
  started in: no library call was made, so nothing was mosaicked, and the disk is
  unchanged, so no file at \<open>export_filename\<close> was written or overwritten.
\<close>

theorem empty_input_stops:
  "mosaic_rasters_in_list mos w [] export_filename f
     = (Inl (Stop ''No raster files provided for mosaicking.''), w)
   \<and> mosaic_rasters_in_batches mos w [] export_filename f batch_size
     = (Inl (Stop ''No raster files provided for mosaicking.''), w)
   \<and> (list_files (if endsWith path_name ''/'' then path_name else path_name @ ''/'') tif_pattern = []
      \<longrightarrow> mosaic_rasters_in_directory mos list_files w path_name export_filename f
            = (Inl (Stop ''No .tif files found in the specified directory.''), w))"
  by (simp add: mosaic_rasters_in_list_def mosaic_rasters_in_batches_def
      mosaic_rasters_in_directory_def Let_def)

theorem empty_input_stops_witness:
  "(\<lambda>p pat. if p = ''tiles/'' then [] else [''x.tif'']) ''tiles/'' tif_pattern = ([] :: path list)
   \<and> mosaic_rasters_in_directory terra_mosaic
        (\<lambda>p pat. if p = ''tiles/'' then [] else [''x.tif'']) three_tiles ''tiles'' ''out.tif'' Mean
      = (Inl (Stop ''No .tif files found in the specified directory.''), three_tiles)"
  using empty_input_stops[where list_files = "\<lambda>p pat. if p = ''tiles/'' then [] else [''x.tif'']"
      and path_name = "''tiles''" and mos = terra_mosaic and w = three_tiles
      and export_filename = "''out.tif''" and f = Mean]
  by (simp add: endsWith_def)

section \<open>Batches\<close>

text \<open>
  C2. For a non-empty vector of \<open>n\<close> files and a batch size of at least one, the loop
  runs over the start indices \<open>1, 1 + batch_size, ...\<close>; the batch that begins at index
  \<open>i\<close> holds the files at the one-based positions \<open>i\<close> to \<open>min (i + batch_size - 1) n\<close>;
  the batches in order concatenate to the input, so every file is in exactly one batch; no
  batch is empty or longer than \<open>batch_size\<close>; and, when the files are on the disk, the
  function returns the value of the fold over the batches, having made the library calls
  of \<open>loop_calls\<close> (for each batch: open it, mosaic it, merge it into the running mosaic,
  clear the temporary files, and only then open the next batch) followed by one write of
  the final mosaic.
\<close>

theorem batches_partition_input:
  assumes "raster_files \<noteq> []" and "1 \<le> batch_size"
  shows "\<exists>starts bs.
           seq_by (length raster_files) batch_size = Inr starts
         \<and> bs = map (batch_files raster_files batch_size) starts
         \<and> (\<forall>k < length starts.
              starts ! k = 1 + k * batch_size
            \<and> bs ! k = map (\<lambda>p. raster_files ! (p - 1))
                 [starts ! k ..< Suc (min (starts ! k + batch_size - 1) (length raster_files))])
         \<and> concat bs = raster_files
         \<and> (\<forall>x \<in> set bs. x \<noteq> [] \<and> length x \<le> batch_size)
         \<and> (set raster_files \<subseteq> dom (disk w) \<longrightarrow>
              (\<exists>final_mosaic.
                 loop_value mos f (disk w) None bs = Some final_mosaic
               \<and> mosaic_rasters_in_batches mos w raster_files export_filename f batch_size
                   = (Inr final_mosaic,
                      writeRaster (w\<lparr>calls := calls w @ loop_calls True bs\<rparr>) final_mosaic
                        export_filename)))"
proof -
  let ?n = "length raster_files" and ?b = batch_size
  define m where "m = (?n - 1) div ?b + 1"
  define starts where "starts = map (\<lambda>k. 1 + k * ?b) [0..<m]"
  define bs where "bs = map (batch_files raster_files ?b) starts"
  have b: "0 < ?b" and n: "0 < ?n" using assms by auto
  have len: "length starts = m" "length bs = m" by (simp_all add: starts_def bs_def)
  have seq: "seq_by ?n ?b = Inr starts"
    using seq_by_pos[OF n b] by (simp add: starts_def m_def)
  have cover: "concat bs = raster_files"
    using batches_cover[OF assms(1,2)] by (simp add: bs_def starts_def m_def)
  have in_range: "k * ?b < ?n" if "k < m" for k
    using start_in_range[OF n] that unfolding m_def by blast
  have sk: "starts ! k = Suc (k * ?b)" if "k < m" for k
    using that by (simp add: starts_def)
  have bk: "bs ! k = batch_files raster_files ?b (Suc (k * ?b))" if "k < m" for k
    using that sk[OF that] len by (simp add: bs_def)
  have idx: "\<forall>k < length starts. starts ! k = 1 + k * ?b
      \<and> bs ! k = map (\<lambda>p. raster_files ! (p - 1))
          [starts ! k ..< Suc (min (starts ! k + ?b - 1) ?n)]"
  proof (intro allI impI)
    fix k assume "k < length starts"
    then have k: "k < m" using len by simp
    have "batch_files raster_files ?b (Suc (k * ?b))
        = map (\<lambda>p. raster_files ! (p - 1)) [Suc (k * ?b) ..< Suc (min (Suc (k * ?b) + ?b - 1) ?n)]"
      using r_slice_positions[of "Suc (k * ?b)" "min (Suc (k * ?b) + ?b - 1) ?n" raster_files]
        in_range[OF k] b
      by (simp add: batch_files_def r_slice_def)
    then show "starts ! k = 1 + k * ?b
      \<and> bs ! k = map (\<lambda>p. raster_files ! (p - 1))
          [starts ! k ..< Suc (min (starts ! k + ?b - 1) ?n)]"
      using sk[OF k] bk[OF k] by simp
  qed
  have sizes: "\<forall>x \<in> set bs. x \<noteq> [] \<and> length x \<le> ?b"
  proof
    fix x assume "x \<in> set bs"
    then obtain k where k: "k < m" and x: "x = bs ! k"
      using len by (metis in_set_conv_nth)
    have "x = take ?b (drop (k * ?b) raster_files)"
      using x bk[OF k] batch_files_take_drop[OF b in_range[OF k]] by simp
    then show "x \<noteq> [] \<and> length x \<le> ?b" using in_range[OF k] b by auto
  qed
  have ne: "bs \<noteq> []" using cover assms(1) by auto
  have run_part: "set raster_files \<subseteq> dom (disk w) \<longrightarrow>
      (\<exists>final_mosaic.
         loop_value mos f (disk w) None bs = Some final_mosaic
       \<and> mosaic_rasters_in_batches mos w raster_files export_filename f ?b
           = (Inr final_mosaic,
              writeRaster (w\<lparr>calls := calls w @ loop_calls True bs\<rparr>) final_mosaic
                export_filename))"
  proof
    assume on_disk: "set raster_files \<subseteq> dom (disk w)"
    have present: "\<forall>i \<in> set starts. set (batch_files raster_files ?b i) \<subseteq> dom (disk w)"
    proof
      fix i assume "i \<in> set starts"
      then have "batch_files raster_files ?b i \<in> set bs" by (simp add: bs_def)
      then have "set (batch_files raster_files ?b i) \<subseteq> set (concat bs)" by auto
      then show "set (batch_files raster_files ?b i) \<subseteq> dom (disk w)"
        using cover on_disk by simp
    qed
    from ne obtain fin where fin: "loop_value mos f (disk w) None bs = Some fin"
      using loop_value_Some[of None bs mos f "disk w"] by blast
    have run: "mosaic_rasters_in_batches mos w raster_files export_filename f ?b
        = (Inr fin, writeRaster (w\<lparr>calls := calls w @ loop_calls True bs\<rparr>) fin export_filename)"
      using batch_loop_present[OF present, of mos f None] seq fin assms(1)
      by (simp add: mosaic_rasters_in_batches_def bs_def)
    show "\<exists>final_mosaic.
         loop_value mos f (disk w) None bs = Some final_mosaic
       \<and> mosaic_rasters_in_batches mos w raster_files export_filename f ?b
           = (Inr final_mosaic,
              writeRaster (w\<lparr>calls := calls w @ loop_calls True bs\<rparr>) final_mosaic
                export_filename)"
      using fin run by blast
  qed
  show ?thesis
    apply (rule exI[of _ starts])
    apply (rule exI[of _ bs])
    apply (intro conjI)
         apply (rule seq)
        apply (rule bs_def)
       apply (rule idx)
      apply (rule cover)
     apply (rule sizes)
    apply (rule run_part)
    done
qed

theorem batches_partition_input_witness:
  "[''a.tif'', ''b.tif'', ''c.tif''] \<noteq> [] \<and> (1::nat) \<le> 2
   \<and> set [''a.tif'', ''b.tif'', ''c.tif''] \<subseteq> dom (disk three_tiles)
   \<and> (\<exists>starts bs final_mosaic.
           seq_by (length [''a.tif'', ''b.tif'', ''c.tif'']) 2 = Inr starts
         \<and> bs = map (batch_files [''a.tif'', ''b.tif'', ''c.tif''] 2) starts
         \<and> concat bs = [''a.tif'', ''b.tif'', ''c.tif'']
         \<and> loop_value terra_mosaic Sum (disk three_tiles) None bs = Some final_mosaic
         \<and> mosaic_rasters_in_batches terra_mosaic three_tiles
               [''a.tif'', ''b.tif'', ''c.tif''] ''out.tif'' Sum 2
             = (Inr final_mosaic,
                writeRaster (three_tiles\<lparr>calls := calls three_tiles @ loop_calls True bs\<rparr>)
                  final_mosaic ''out.tif''))"
proof -
  let ?fl = "[''a.tif'', ''b.tif'', ''c.tif'']"
  have h1: "?fl \<noteq> []" by simp
  have h2: "(1::nat) \<le> 2" by simp
  have h3: "set ?fl \<subseteq> dom (disk three_tiles)"
    by (simp add: three_tiles_def)
  from batches_partition_input[OF h1 h2, of three_tiles terra_mosaic Sum "''out.tif''"]
  obtain starts bs where s: "seq_by (length ?fl) 2 = Inr starts"
    and b: "bs = map (batch_files ?fl 2) starts"
    and c: "concat bs = ?fl"
    and r: "set ?fl \<subseteq> dom (disk three_tiles) \<longrightarrow>
      (\<exists>final_mosaic.
         loop_value terra_mosaic Sum (disk three_tiles) None bs = Some final_mosaic
       \<and> mosaic_rasters_in_batches terra_mosaic three_tiles ?fl ''out.tif'' Sum 2
           = (Inr final_mosaic,
              writeRaster (three_tiles\<lparr>calls := calls three_tiles @ loop_calls True bs\<rparr>)
                final_mosaic ''out.tif''))"
    by (elim exE conjE) (rule that)
  from r h3 obtain final_mosaic where
    l: "loop_value terra_mosaic Sum (disk three_tiles) None bs = Some final_mosaic"
    and run: "mosaic_rasters_in_batches terra_mosaic three_tiles ?fl ''out.tif'' Sum 2
           = (Inr final_mosaic,
              writeRaster (three_tiles\<lparr>calls := calls three_tiles @ loop_calls True bs\<rparr>)
                final_mosaic ''out.tif'')"
    by blast
  have "\<exists>starts bs final_mosaic.
           seq_by (length ?fl) 2 = Inr starts
         \<and> bs = map (batch_files ?fl 2) starts
         \<and> concat bs = ?fl
         \<and> loop_value terra_mosaic Sum (disk three_tiles) None bs = Some final_mosaic
         \<and> mosaic_rasters_in_batches terra_mosaic three_tiles ?fl ''out.tif'' Sum 2
             = (Inr final_mosaic,
                writeRaster (three_tiles\<lparr>calls := calls three_tiles @ loop_calls True bs\<rparr>)
                  final_mosaic ''out.tif'')"
    apply (rule exI[of _ starts])
    apply (rule exI[of _ bs])
    apply (rule exI[of _ final_mosaic])
    apply (intro conjI)
        apply (rule s)
       apply (rule b)
      apply (rule c)
     apply (rule l)
    apply (rule run)
    done
  with h1 h2 h3 show ?thesis by (intro conjI)
qed

section \<open>Batches against one pass\<close>

text \<open>
  The batch loop applies the aggregation function twice to a cell: once inside each batch
  and once more when a batch mosaic is merged into the running mosaic. For \<open>sum\<close>, \<open>min\<close>
  and \<open>max\<close> the result is the one of a single pass over all files.
\<close>

lemma cell_values_append: "cell_values (xs @ ys) c = cell_values xs c @ cell_values ys c"
  by (simp add: cell_values_def List.map_filter_def)

lemma aggregate_Min: "vs \<noteq> [] \<Longrightarrow> aggregate Min vs = linorder_class.Min (set vs)"
proof (cases vs)
  case Nil
  assume "vs \<noteq> []"
  with Nil show ?thesis by simp
next
  case (Cons a list)
  then show ?thesis using Min.set_eq_fold[of a list] by simp
qed

lemma aggregate_Max: "vs \<noteq> [] \<Longrightarrow> aggregate Max vs = linorder_class.Max (set vs)"
proof (cases vs)
  case Nil
  assume "vs \<noteq> []"
  with Nil show ?thesis by simp
next
  case (Cons a list)
  then show ?thesis using Max.set_eq_fold[of a list] by simp
qed

lemma aggregate_single: "f \<in> {Sum, Min, Max} \<Longrightarrow> aggregate f [v] = v"
  by auto

lemma aggregate_merge:
  assumes "f \<in> {Sum, Min, Max}" "vx \<noteq> []" "vy \<noteq> []"
  shows "aggregate f [aggregate f vx, aggregate f vy] = aggregate f (vx @ vy)"
proof -
  have "aggregate Min [aggregate Min vx, aggregate Min vy] = aggregate Min (vx @ vy)"
    using assms(2,3) by (simp add: aggregate_Min Min_Un del: aggregate.simps)
  moreover have "aggregate Max [aggregate Max vx, aggregate Max vy] = aggregate Max (vx @ vy)"
    using assms(2,3) by (simp add: aggregate_Max Max_Un del: aggregate.simps)
  moreover have "aggregate Sum [aggregate Sum vx, aggregate Sum vy] = aggregate Sum (vx @ vy)"
    by simp
  ultimately show ?thesis using assms(1) by auto
qed

lemma cell_values_pair:
  "cell_values [terra_mosaic f xs, terra_mosaic f ys] c
   = (if cell_values xs c = [] then [] else [aggregate f (cell_values xs c)])
     @ (if cell_values ys c = [] then [] else [aggregate f (cell_values ys c)])"
  by (simp add: cell_values_def[of "[_, _]"] terra_mosaic_def Let_def)

lemma terra_mosaic_merge:
  assumes "f \<in> {Sum, Min, Max}"
  shows "terra_mosaic f [terra_mosaic f xs, terra_mosaic f ys] = terra_mosaic f (xs @ ys)"
proof (rule ext)
  fix c
  show "terra_mosaic f [terra_mosaic f xs, terra_mosaic f ys] c = terra_mosaic f (xs @ ys) c"
    unfolding terra_mosaic_def[of f "[_, _]"] terra_mosaic_def[of f "xs @ ys"] cell_values_pair
      cell_values_append Let_def
    using aggregate_single[OF assms] aggregate_merge[OF assms]
    by (cases "cell_values xs c = []"; cases "cell_values ys c = []") simp_all
qed


lemma loop_value_merged:
  assumes "f \<in> {Sum, Min, Max}"
  shows "loop_value terra_mosaic f d (Some (terra_mosaic f rs)) bs
         = Some (terra_mosaic f (rs @ map (\<lambda>p. the (d p)) (concat bs)))"
proof (induction bs arbitrary: rs)
  case Nil
  then show ?case by simp
next
  case (Cons b bs)
  show ?case
    unfolding loop_value.simps option.case terra_mosaic_merge[OF assms] Cons.IH by simp
qed

lemma loop_value_one_pass:
  assumes "f \<in> {Sum, Min, Max}" "bs \<noteq> []"
  shows "loop_value terra_mosaic f d None bs
         = Some (terra_mosaic f (map (\<lambda>p. the (d p)) (concat bs)))"
proof (cases bs)
  case Nil
  with assms(2) show ?thesis by simp
next
  case (Cons b rest)
  show ?thesis
    unfolding Cons loop_value.simps option.case loop_value_merged[OF assms(1)] by simp
qed

lemma batches_result:
  assumes "raster_files \<noteq> []" and "1 \<le> batch_size"
    and "set raster_files \<subseteq> dom (disk w)"
  shows "\<exists>bs. bs \<noteq> [] \<and> concat bs = raster_files
     \<and> fst (mosaic_rasters_in_batches mos w raster_files export_filename f batch_size)
       = (case loop_value mos f (disk w) None bs of
            None \<Rightarrow> Inl (Stop ''writeRaster: final_mosaic is NULL'')
          | Some m \<Rightarrow> Inr m)"
proof -
  let ?n = "length raster_files"
  define starts where "starts = map (\<lambda>k. 1 + k * batch_size) [0..<(?n - 1) div batch_size + 1]"
  define bs where "bs = map (batch_files raster_files batch_size) starts"
  have b: "0 < batch_size" and n: "0 < ?n" using assms by auto
  have seq: "seq_by ?n batch_size = Inr starts"
    using seq_by_pos[OF n b] by (simp add: starts_def)
  have cover: "concat bs = raster_files"
    using batches_cover[OF assms(1,2)] by (simp add: bs_def starts_def)
  have present: "\<forall>i \<in> set starts. set (batch_files raster_files batch_size i) \<subseteq> dom (disk w)"
  proof
    fix i assume "i \<in> set starts"
    then have "batch_files raster_files batch_size i \<in> set bs" by (simp add: bs_def)
    then have "set (batch_files raster_files batch_size i) \<subseteq> set (concat bs)" by auto
    then show "set (batch_files raster_files batch_size i) \<subseteq> dom (disk w)"
      using cover assms(3) by simp
  qed
  have ne: "bs \<noteq> []" using cover assms(1) by auto
  have run: "fst (mosaic_rasters_in_batches mos w raster_files export_filename f batch_size)
       = (case loop_value mos f (disk w) None bs of
            None \<Rightarrow> Inl (Stop ''writeRaster: final_mosaic is NULL'')
          | Some m \<Rightarrow> Inr m)"
    using batch_loop_present[OF present, of mos f None] seq assms(1)
    by (simp add: mosaic_rasters_in_batches_def bs_def split: option.splits)
  show ?thesis using ne cover run by blast
qed

lemma one_pass_result:
  assumes "raster_files \<noteq> []" and "set raster_files \<subseteq> dom (disk w)"
  shows "fst (mosaic_rasters_in_list mos w raster_files export_filename f)
         = Inr (mos f (map (\<lambda>p. the (disk w p)) raster_files))"
  using assms open_all_present[OF assms(2)]
  by (simp add: mosaic_rasters_in_list_def sprc_def Let_def)

lemma batches_equal_one_pass_for_sum_min_max:
  assumes "raster_files \<noteq> []" and "1 \<le> batch_size"
    and "set raster_files \<subseteq> dom (disk w)" and "f \<in> {Sum, Min, Max}"
  shows "fst (mosaic_rasters_in_batches terra_mosaic w raster_files export_filename f batch_size)
         = fst (mosaic_rasters_in_list terra_mosaic w raster_files export_filename f)"
proof -
  from batches_result[OF assms(1-3), of terra_mosaic export_filename f]
  obtain bs where ne: "bs \<noteq> []" and cover: "concat bs = raster_files"
    and run: "fst (mosaic_rasters_in_batches terra_mosaic w raster_files export_filename f batch_size)
       = (case loop_value terra_mosaic f (disk w) None bs of
            None \<Rightarrow> Inl (Stop ''writeRaster: final_mosaic is NULL'')
          | Some m \<Rightarrow> Inr m)"
    by (elim exE conjE) (rule that)
  show ?thesis
    unfolding run loop_value_one_pass[OF assms(4) ne] cover one_pass_result[OF assms(1,3)]
    by simp
qed

text \<open>
  C1. For \<open>mean\<close> it is not. Three tiles cover the same cell with the values 0, 0 and 3.
  With the aggregation function \<open>mean\<close>, the default of both functions, one pass over the
  three files gives the cell the value 1, the mean of the three values. In batches of two,
  the first batch gives 0, and merging the second batch (the value 3) into it gives the
  mean of 0 and 3, which is 3/2.
\<close>

theorem batches_mean_differs_from_one_pass:
  "value_at (mosaic_rasters_in_list terra_mosaic three_tiles
       [''a.tif'', ''b.tif'', ''c.tif''] ''out.tif'' Mean) (0, 0) = Some 1
   \<and> value_at (mosaic_rasters_in_batches terra_mosaic three_tiles
       [''a.tif'', ''b.tif'', ''c.tif''] ''out.tif'' Mean 2) (0, 0) = Some (3 / 2)"
  by (simp add: value_at_def mosaic_rasters_in_list_def mosaic_rasters_in_batches_def
      three_tiles_def sprc_def log_call_def writeRaster_def terra_mosaic_def cell_values_def
      unit_raster_def seq_by_def batch_body_def batch_files_def r_slice_def Let_def upt_rec)

section \<open>Earth Engine images\<close>

text \<open>
  The scripts under \<open>gee/\<close> build values of the Earth Engine API. An image is read as
  its ordered list of bands; a band is a name and its pixel data, a partial function from
  pixels to values in which \<open>None\<close> is a masked pixel. Pixel values are real numbers.
  Metadata (properties, projection, footprint) is not part of the model. A value that the
  platform cannot compute (a \<open>select\<close> of a band the image does not have, for example) is
  an error: the platform reports it when the value is requested.

  The API methods the scripts call are modelled after the API reference:
  \<^item> \<open>select\<close> fails when the name matches no band;
  \<^item> \<open>rename\<close> with one name needs an image with one band;
  \<^item> \<open>addBands\<close> without \<open>overwrite\<close> keeps every band of the destination and
    appends the bands of the source, renaming a band whose name is taken with a numeric
    suffix (\<open>foo\<close> to \<open>foo_1\<close> unless \<open>foo_1\<close> exists, then \<open>foo_2\<close>, and so on);
  \<^item> an array of images where an image is expected is combined into one image;
  \<^item> band arithmetic is pixel-wise, a result pixel is masked when an operand pixel is,
    the result band takes the name of the left operand, and division by zero gives 0;
  \<^item> \<open>normalizedDifference\<close> names its band \<open>nd\<close> and masks every pixel at which one of
    the two inputs is negative.
\<close>

type_synonym pixel = "int \<times> int"
type_synonym band_data = "pixel \<Rightarrow> real option"
type_synonym band = "string \<times> band_data"
type_synonym image = "band list"

datatype ee_error = EEException string


subsection \<open>Bands and names\<close>

definition bind_ee :: "ee_error + 'a \<Rightarrow> ('a \<Rightarrow> ee_error + 'b) \<Rightarrow> ee_error + 'b" where
  "bind_ee x k = (case x of Inl e \<Rightarrow> Inl e | Inr v \<Rightarrow> k v)"

definition bandNames :: "image \<Rightarrow> string list" where
  "bandNames img = map fst img"

definition select :: "image \<Rightarrow> string \<Rightarrow> ee_error + image" where
  "select img b =
     (case map_of img b of
        None \<Rightarrow> Inl (EEException (''Image.select: Pattern did not match any bands: '' @ b))
      | Some d \<Rightarrow> Inr [(b, d)])"

definition single_band :: "image \<Rightarrow> ee_error + band" where
  "single_band img =
     (case img of
        [b] \<Rightarrow> Inr b
      | _ \<Rightarrow> Inl (EEException ''expected an img with one band''))"

definition rename :: "image \<Rightarrow> string \<Rightarrow> ee_error + image" where
  "rename img n = bind_ee (single_band img) (\<lambda>b. Inr [(n, snd b)])"

definition digits :: string where
  "digits = ''0123456789''"

fun decimal :: "nat \<Rightarrow> string" where
  "decimal n = (if n < 10 then [digits ! n] else decimal (n div 10) @ [digits ! (n mod 10)])"

declare decimal.simps [simp del]

definition fresh_name :: "string list \<Rightarrow> string \<Rightarrow> string" where
  "fresh_name used n =
     (if n \<notin> set used then n
      else (case find (\<lambda>c. c \<notin> set used)
                   (map (\<lambda>k. n @ ''_'' @ decimal k) [1..<length used + 2]) of
              Some c \<Rightarrow> c
            | None \<Rightarrow> n))"

definition add_band :: "image \<Rightarrow> band \<Rightarrow> image" where
  "add_band dst b = dst @ [(fresh_name (map fst dst) (fst b), snd b)]"

definition addBands :: "image \<Rightarrow> image \<Rightarrow> image" where
  "addBands dst src = foldl add_band dst src"

definition ee_Image :: "image list \<Rightarrow> ee_error + image" where
  "ee_Image images =
     (case images of
        [] \<Rightarrow> Inl (EEException ''Cannot combine an empty list of images'')
      | first # rest \<Rightarrow> Inr (foldl addBands first rest))"

subsection \<open>Band arithmetic and expressions\<close>

text \<open>
  An expression string of the script is written as its syntax tree, with the precedence
  of the usual arithmetic. The second argument of \<open>expression\<close> binds each variable to an
  image value, which may itself be an error.
\<close>

definition ee_divide :: "real \<Rightarrow> real \<Rightarrow> real" where
  "ee_divide x y = (if y = 0 then 0 else x / y)"

definition lift1 :: "(real \<Rightarrow> real) \<Rightarrow> band_data \<Rightarrow> band_data" where
  "lift1 g a = (\<lambda>p. case a p of None \<Rightarrow> None | Some x \<Rightarrow> Some (g x))"

definition lift2 :: "(real \<Rightarrow> real \<Rightarrow> real) \<Rightarrow> band_data \<Rightarrow> band_data \<Rightarrow> band_data" where
  "lift2 g a b =
     (\<lambda>p. case a p of None \<Rightarrow> None
          | Some x \<Rightarrow> (case b p of None \<Rightarrow> None | Some y \<Rightarrow> Some (g x y)))"

datatype expr =
    Var string
  | Num real
  | Add expr expr
  | Sub expr expr
  | Mul expr expr
  | Div expr expr
  | Sqrt expr

definition binop :: "(real \<Rightarrow> real \<Rightarrow> real) \<Rightarrow> ee_error + band \<Rightarrow> ee_error + band \<Rightarrow> ee_error + band" where
  "binop g x y = bind_ee x (\<lambda>a. bind_ee y (\<lambda>b. Inr (fst a, lift2 g (snd a) (snd b))))"

fun eval_expr :: "(string \<times> (ee_error + image)) list \<Rightarrow> expr \<Rightarrow> ee_error + band" where
  "eval_expr env (Var v) =
     (case map_of env v of
        None \<Rightarrow> Inl (EEException (''Image.expression: unbound variable '' @ v))
      | Some x \<Rightarrow> bind_ee x single_band)"
| "eval_expr env (Num c) = Inr (''constant'', \<lambda>p. Some c)"
| "eval_expr env (Add a b) = binop (+) (eval_expr env a) (eval_expr env b)"
| "eval_expr env (Sub a b) = binop (-) (eval_expr env a) (eval_expr env b)"
| "eval_expr env (Mul a b) = binop (*) (eval_expr env a) (eval_expr env b)"
| "eval_expr env (Div a b) = binop ee_divide (eval_expr env a) (eval_expr env b)"
| "eval_expr env (Sqrt a) = bind_ee (eval_expr env a) (\<lambda>b. Inr (fst b, lift1 sqrt (snd b)))"

definition expression :: "image \<Rightarrow> expr \<Rightarrow> (string \<times> (ee_error + image)) list \<Rightarrow> ee_error + image" where
  "expression img e env = bind_ee (eval_expr env e) (\<lambda>b. Inr [b])"

definition nd_data :: "band_data \<Rightarrow> band_data \<Rightarrow> band_data" where
  "nd_data first second =
     (\<lambda>p. case first p of None \<Rightarrow> None
          | Some x \<Rightarrow>
              (case second p of None \<Rightarrow> None
               | Some y \<Rightarrow> if x < 0 \<or> y < 0 then None else Some (ee_divide (x - y) (x + y))))"

definition normalizedDifference :: "image \<Rightarrow> string list \<Rightarrow> ee_error + image" where
  "normalizedDifference img names =
     (case names of
        [b1, b2] \<Rightarrow>
          bind_ee (bind_ee (select img b1) single_band) (\<lambda>first.
          bind_ee (bind_ee (select img b2) single_band) (\<lambda>second.
            Inr [(''nd'', nd_data (snd first) (snd second))]))
      | _ \<Rightarrow> Inl (EEException ''normalizedDifference: expected two band names''))"

section \<open>Spectral indices (gee/functions/sentinel\_indices\_and\_masks.js)\<close>

text \<open>
  \<open>image.addBands([X])\<close> passes an array holding one image. \<open>copyProperties\<close> changes
  metadata only, so it returns the bands of its destination.
\<close>

definition addBands_list :: "image \<Rightarrow> image list \<Rightarrow> ee_error + image" where
  "addBands_list img srcs = bind_ee (ee_Image srcs) (\<lambda>srcImg. Inr (addBands img srcImg))"

definition copyProperties :: "image \<Rightarrow> image \<Rightarrow> string list \<Rightarrow> image" where
  "copyProperties dst src properties = dst"

definition addCRE :: "image \<Rightarrow> ee_error + image" where
  "addCRE img =
     bind_ee (bind_ee
       (expression img (Sub (Div (Var ''RedEdge3'') (Var ''RedEdge1'')) (Num 1))
          [(''RedEdge1'', select img ''B5''),
           (''RedEdge3'', select img ''B7'')])
       (\<lambda>x. rename x ''CRE''))
     (\<lambda>CRE. addBands_list img [CRE])"

definition addDSWI :: "image \<Rightarrow> ee_error + image" where
  "addDSWI img =
     bind_ee (bind_ee
       (expression img (Div (Add (Var ''NIR'') (Var ''Green'')) (Add (Var ''Red'') (Var ''SWIR'')))
          [(''NIR'', select img ''B8''),
           (''Green'', select img ''B3''),
           (''Red'', select img ''B4''),
           (''SWIR'', select img ''B11'')])
       (\<lambda>x. rename x ''DSWI''))
     (\<lambda>DSWI. addBands_list img [DSWI])"

definition addDRS :: "image \<Rightarrow> ee_error + image" where
  "addDRS img =
     bind_ee (bind_ee
       (expression img
          (Sqrt (Add (Mul (Var ''RED'') (Var ''RED'')) (Mul (Var ''SWIR'') (Var ''SWIR''))))
          [(''SWIR'', select img ''B11''),
           (''RED'', select img ''B4'')])
       (\<lambda>x. rename x ''DRS''))
     (\<lambda>DRS. bind_ee (addBands_list img [DRS])
        (\<lambda>r. Inr (copyProperties r img [''system:time_start''])))"

definition evi_formula :: expr where
  "evi_formula =
     Mul (Num 2.5)
       (Div (Sub (Var ''NIR'') (Var ''RED''))
            (Add (Sub (Add (Var ''NIR'') (Mul (Num 6) (Var ''RED'')))
                      (Mul (Num 7.5) (Var ''BLUE'')))
                 (Num 1)))"

definition addEVI :: "image \<Rightarrow> ee_error + image" where
  "addEVI img =
     bind_ee (bind_ee
       (expression img evi_formula
          [(''NIR'', select img ''B8''),
           (''RED'', select img ''B4''),
           (''BLUE'', select img ''B2'')])
       (\<lambda>x. rename x ''EVI''))
     (\<lambda>EVI. addBands_list img [EVI])"

definition addGNDVI :: "image \<Rightarrow> ee_error + image" where
  "addGNDVI img =
     bind_ee (bind_ee (normalizedDifference img [''B8'', ''B3'']) (\<lambda>x. rename x ''GNDVI''))
     (\<lambda>GNDVI. addBands_list img [GNDVI])"

definition addLAI :: "image \<Rightarrow> ee_error + image" where
  "addLAI img =
     bind_ee (bind_ee
       (expression img (Sub (Mul (Num 3.618) (Var ''EVI'')) (Num 0.118))
          [(''EVI'',
            expression img evi_formula
              [(''NIR'', select img ''B8''),
               (''RED'', select img ''B4''),
               (''BLUE'', select img ''B2'')])])
       (\<lambda>x. rename x ''LAI''))
     (\<lambda>LAI. addBands_list img [LAI])"

definition addNBR :: "image \<Rightarrow> ee_error + image" where
  "addNBR img =
     bind_ee (bind_ee
       (expression img (Div (Sub (Var ''NIR'') (Var ''SWIR2'')) (Add (Var ''NIR'') (Var ''SWIR2'')))
          [(''NIR'', select img ''B8''),
           (''SWIR2'', select img ''B12'')])
       (\<lambda>x. rename x ''NBR''))
     (\<lambda>NBR. addBands_list img [NBR])"

definition addNDRE1 :: "image \<Rightarrow> ee_error + image" where
  "addNDRE1 img =
     bind_ee (bind_ee
       (expression img
          (Div (Sub (Var ''RedEdge2'') (Var ''RedEdge1'')) (Add (Var ''RedEdge2'') (Var ''RedEdge1'')))
          [(''RedEdge2'', select img ''B6''),
           (''RedEdge1'', select img ''B5'')])
       (\<lambda>x. rename x ''NDRE1''))
     (\<lambda>NDRE1. addBands_list img [NDRE1])"

definition addNDRE2 :: "image \<Rightarrow> ee_error + image" where
  "addNDRE2 img =
     bind_ee (bind_ee
       (expression img
          (Div (Sub (Var ''RedEdge3'') (Var ''RedEdge1'')) (Add (Var ''RedEdge3'') (Var ''RedEdge1'')))
          [(''RedEdge3'', select img ''B7''),
           (''RedEdge1'', select img ''B5'')])
       (\<lambda>x. rename x ''NDRE2''))
     (\<lambda>NDRE2. addBands_list img [NDRE2])"

definition addNDVI :: "image \<Rightarrow> ee_error + image" where
  "addNDVI img =
     bind_ee (bind_ee (normalizedDifference img [''B8'', ''B4'']) (\<lambda>x. rename x ''NDVI''))
     (\<lambda>NDVI. addBands_list img [NDVI])"

definition addNDWI :: "image \<Rightarrow> ee_error + image" where
  "addNDWI img =
     bind_ee (bind_ee
       (expression img (Div (Sub (Var ''Green'') (Var ''NIR'')) (Add (Var ''Green'') (Var ''NIR'')))
          [(''NIR'', select img ''B8''),
           (''Green'', select img ''B3'')])
       (\<lambda>x. rename x ''NDWI''))
     (\<lambda>NDWI. addBands_list img [NDWI])"

subsection \<open>Band checks on the client\<close>

text \<open>
  \<open>addNDRE3\<close> and \<open>addRDI\<close> compute \<open>hasBands\<close> on the client with
  \<open>Array.prototype.every\<close>, whose callback returns \<open>image.bandNames().contains(b)\<close>:
  a server-side value, which on the client is an object. \<open>every\<close> converts what the
  callback returns to a boolean by the truthiness of JavaScript, and every object is
  truthy. \<open>ee.Algorithms.If\<close> then receives a client boolean.
\<close>

datatype ee_value = EE_Boolean bool

datatype js_value =
    JS_undefined
  | JS_null
  | JS_boolean bool
  | JS_number real
  | JS_string string
  | JS_object ee_value

fun js_truthy :: "js_value \<Rightarrow> bool" where
  "js_truthy JS_undefined = False"
| "js_truthy JS_null = False"
| "js_truthy (JS_boolean b) = b"
| "js_truthy (JS_number x) = (x \<noteq> 0)"
| "js_truthy (JS_string s) = (s \<noteq> [])"
| "js_truthy (JS_object v) = True"

fun js_typeof :: "js_value \<Rightarrow> string" where
  "js_typeof JS_undefined = ''undefined''"
| "js_typeof JS_null = ''object''"
| "js_typeof (JS_boolean b) = ''boolean''"
| "js_typeof (JS_number x) = ''number''"
| "js_typeof (JS_string s) = ''string''"
| "js_typeof (JS_object v) = ''object''"

definition array_every :: "('a \<Rightarrow> js_value) \<Rightarrow> 'a list \<Rightarrow> bool" where
  "array_every callback xs = list_all (\<lambda>x. js_truthy (callback x)) xs"

definition list_contains :: "string list \<Rightarrow> string \<Rightarrow> ee_value" where
  "list_contains xs b = EE_Boolean (b \<in> set xs)"

definition Algorithms_If :: "bool \<Rightarrow> 'a \<Rightarrow> 'a \<Rightarrow> 'a" where
  "Algorithms_If condition trueCase falseCase = (if condition then trueCase else falseCase)"

definition addNDRE3 :: "image \<Rightarrow> ee_error + image" where
  "addNDRE3 img =
     (let bands = [''B8A'', ''B7''];
          hasBands = array_every (\<lambda>b. JS_object (list_contains (bandNames img) b)) bands
      in Algorithms_If hasBands
           (bind_ee (bind_ee
              (expression img
                 (Div (Sub (Var ''RedEdge4'') (Var ''RedEdge3''))
                      (Add (Var ''RedEdge4'') (Var ''RedEdge3'')))
                 [(''RedEdge4'', select img ''B8A''),
                  (''RedEdge3'', select img ''B7'')])
              (\<lambda>x. rename x ''NDRE3''))
            (\<lambda>NDRE3. Inr (addBands img NDRE3)))
           (Inr img))"

definition addRDI :: "image \<Rightarrow> ee_error + image" where
  "addRDI img =
     (let bands = [''B12'', ''B8A''];
          hasBands = array_every (\<lambda>b. JS_object (list_contains (bandNames img) b)) bands
      in Algorithms_If hasBands
           (bind_ee (bind_ee
              (expression img (Div (Var ''SWIR2'') (Var ''RedEdge4''))
                 [(''SWIR2'', select img ''B12''),
                  (''RedEdge4'', select img ''B8A'')])
              (\<lambda>x. rename x ''RDI''))
            (\<lambda>RDI. Inr (addBands img RDI)))
           (Inr img))"

subsection \<open>Cloud mask\<close>

text \<open>
  \<open>1 << 10\<close> is the 32-bit shift of JavaScript. \<open>bitwiseAnd\<close> acts on the integer value of
  a pixel. \<open>updateMask\<close> masks a pixel of every band where the mask is zero or masked, and
  leaves a masked pixel masked.
\<close>

definition map_bands :: "(band_data \<Rightarrow> band_data) \<Rightarrow> image \<Rightarrow> image" where
  "map_bands g img = map (\<lambda>b. (fst b, g (snd b))) img"

definition js_shiftl :: "int \<Rightarrow> nat \<Rightarrow> int" where
  "js_shiftl a n = sint (push_bit (n mod 32) (word_of_int a :: 32 word))"

definition bitwiseAnd :: "image \<Rightarrow> int \<Rightarrow> image" where
  "bitwiseAnd img m = map_bands (lift1 (\<lambda>x. of_int (\<lfloor>x\<rfloor> AND m))) img"

definition ee_eq :: "image \<Rightarrow> real \<Rightarrow> image" where
  "ee_eq img c = map_bands (lift1 (\<lambda>x. if x = c then 1 else 0)) img"

definition ee_and :: "image \<Rightarrow> image \<Rightarrow> image" where
  "ee_and a b =
     map (\<lambda>(x, y). (fst x, lift2 (\<lambda>u v. if u \<noteq> 0 \<and> v \<noteq> 0 then 1 else 0) (snd x) (snd y)))
       (zip a b)"

definition mask_with :: "band_data \<Rightarrow> band_data \<Rightarrow> band_data" where
  "mask_with m d =
     (\<lambda>p. case d p of None \<Rightarrow> None
          | Some v \<Rightarrow> (case m p of None \<Rightarrow> None | Some x \<Rightarrow> if x = 0 then None else Some v))"

definition updateMask :: "image \<Rightarrow> image \<Rightarrow> ee_error + image" where
  "updateMask img msk =
     (case msk of
        [m] \<Rightarrow> Inr (map_bands (mask_with (snd m)) img)
      | _ \<Rightarrow>
        if length msk = length img
        then Inr (map (\<lambda>(b, m). (fst b, mask_with (snd m) (snd b))) (zip img msk))
        else Inl (EEException ''Image.updateMask: the bands of the mask do not match''))"

definition divide :: "image \<Rightarrow> real \<Rightarrow> image" where
  "divide img c = map_bands (lift1 (\<lambda>x. ee_divide x c)) img"

definition maskS2clouds :: "image \<Rightarrow> ee_error + image" where
  "maskS2clouds img =
     bind_ee (select img ''QA60'') (\<lambda>qa.
       let cloudBitMask = js_shiftl 1 10;
           cirrusBitMask = js_shiftl 1 11;
           msk = ee_and (ee_eq (bitwiseAnd qa cloudBitMask) 0)
                         (ee_eq (bitwiseAnd qa cirrusBitMask) 0)
       in bind_ee (updateMask img msk) (\<lambda>masked. Inr (divide masked 10000)))"

section \<open>Properties of the index functions\<close>

lemma js_shiftl_vals: "js_shiftl 1 10 = 1024" "js_shiftl 1 11 = 2048"
  by (simp_all add: js_shiftl_def)

lemma select_present:
  assumes "b \<in> set (bandNames img)"
  shows "\<exists>d. map_of img b = Some d \<and> select img b = Inr [(b, d)]"
proof -
  have "map_of img b \<noteq> None"
    using assms by (simp add: bandNames_def map_of_eq_None_iff)
  then show ?thesis by (auto simp: select_def)
qed

lemma fresh_name_unused: "n \<notin> set used \<Longrightarrow> fresh_name used n = n"
  by (simp add: fresh_name_def)

lemma addBands_single: "addBands img [(n, d)] = img @ [(fresh_name (bandNames img) n, d)]"
  by (simp add: addBands_def add_band_def bandNames_def)

lemma index_band_appended:
  assumes "x = Inr [(n0, d)]"
  shows "bind_ee (bind_ee x (\<lambda>y. rename y nm)) (\<lambda>I. addBands_list img [I])
         = Inr (img @ [(fresh_name (bandNames img) nm, d)])"
  using assms
  by (simp add: bind_ee_def rename_def single_band_def addBands_list_def ee_Image_def
      addBands_single)

lemma addCRE_frame:
  assumes "set [''B5'', ''B7''] \<subseteq> set (bandNames img)"
  shows "\<exists>d. addCRE img = Inr (img @ [(fresh_name (bandNames img) ''CRE'', d)])"
proof -
  obtain d5 d7 where "select img ''B5'' = Inr [(''B5'', d5)]" "select img ''B7'' = Inr [(''B7'', d7)]"
    using assms select_present[of "''B5''" img] select_present[of "''B7''" img] by auto
  then have "\<exists>n0 d. expression img (Sub (Div (Var ''RedEdge3'') (Var ''RedEdge1'')) (Num 1))
          [(''RedEdge1'', select img ''B5''),
           (''RedEdge3'', select img ''B7'')] = Inr [(n0, d)]"
    by (simp add: expression_def binop_def bind_ee_def single_band_def)
  then show ?thesis
    unfolding addCRE_def using index_band_appended by blast
qed

lemma select_of_map_of: "map_of img b = Some d \<Longrightarrow> select img b = Inr [(b, d)]"
  by (simp add: select_def)

lemma in_bandNames_of_map_of: "map_of img b = Some d \<Longrightarrow> b \<in> set (bandNames img)"
  by (metis bandNames_def map_of_eq_None_iff option.distinct(1) set_map)

lemmas band_math_defs = expression_def binop_def bind_ee_def single_band_def

lemma addDSWI_frame:
  assumes "set [''B8'', ''B3'', ''B4'', ''B11''] \<subseteq> set (bandNames img)"
  shows "\<exists>d. addDSWI img = Inr (img @ [(fresh_name (bandNames img) ''DSWI'', d)])"
proof -
  obtain d1 d2 d3 d4 where "select img ''B8'' = Inr [(''B8'', d1)]"
    "select img ''B3'' = Inr [(''B3'', d2)]" "select img ''B4'' = Inr [(''B4'', d3)]"
    "select img ''B11'' = Inr [(''B11'', d4)]"
    using assms select_present[of "''B8''" img] select_present[of "''B3''" img]
      select_present[of "''B4''" img] select_present[of "''B11''" img] by auto
  then have "\<exists>n0 d. expression img
          (Div (Add (Var ''NIR'') (Var ''Green'')) (Add (Var ''Red'') (Var ''SWIR'')))
          [(''NIR'', select img ''B8''), (''Green'', select img ''B3''),
           (''Red'', select img ''B4''), (''SWIR'', select img ''B11'')] = Inr [(n0, d)]"
    by (simp add: band_math_defs)
  then show ?thesis
    unfolding addDSWI_def using index_band_appended by blast
qed

lemma index_band_appended_copy:
  assumes "x = Inr [(n0, d)]"
  shows "bind_ee (bind_ee x (\<lambda>y. rename y nm))
           (\<lambda>I. bind_ee (addBands_list img [I]) (\<lambda>r. Inr (copyProperties r img ps)))
         = Inr (img @ [(fresh_name (bandNames img) nm, d)])"
  using assms
  by (simp add: bind_ee_def rename_def single_band_def addBands_list_def ee_Image_def
      addBands_single copyProperties_def)

lemma addDRS_frame:
  assumes "set [''B11'', ''B4''] \<subseteq> set (bandNames img)"
  shows "\<exists>d. addDRS img = Inr (img @ [(fresh_name (bandNames img) ''DRS'', d)])"
proof -
  obtain d1 d2 where "select img ''B11'' = Inr [(''B11'', d1)]"
    "select img ''B4'' = Inr [(''B4'', d2)]"
    using assms select_present[of "''B11''" img] select_present[of "''B4''" img] by auto
  then have "\<exists>n0 d. expression img
          (Sqrt (Add (Mul (Var ''RED'') (Var ''RED'')) (Mul (Var ''SWIR'') (Var ''SWIR''))))
          [(''SWIR'', select img ''B11''), (''RED'', select img ''B4'')] = Inr [(n0, d)]"
    by (simp add: band_math_defs)
  then show ?thesis
    unfolding addDRS_def using index_band_appended_copy by blast
qed

definition evi_data :: "band_data \<Rightarrow> band_data \<Rightarrow> band_data \<Rightarrow> band_data" where
  "evi_data nir red blue =
     (\<lambda>p. case nir p of None \<Rightarrow> None
          | Some n \<Rightarrow>
              (case red p of None \<Rightarrow> None
               | Some r \<Rightarrow>
                   (case blue p of None \<Rightarrow> None
                    | Some b \<Rightarrow>
                        Some (2.5 * ee_divide (n - r) (n + 6 * r - 7.5 * b + 1)))))"

lemma evi_expression:
  assumes "map_of img ''B8'' = Some nir" "map_of img ''B4'' = Some red"
    "map_of img ''B2'' = Some blue"
  shows "expression img evi_formula
          [(''NIR'', select img ''B8''), (''RED'', select img ''B4''),
           (''BLUE'', select img ''B2'')] = Inr [(''constant'', evi_data nir red blue)]"
proof -
  have "lift2 (*) (\<lambda>p. Some (5 / 2))
          (lift2 ee_divide (lift2 (-) nir red)
             (lift2 (+) (lift2 (-) (lift2 (+) nir (lift2 (*) (\<lambda>p. Some 6) red))
                                   (lift2 (*) (\<lambda>p. Some (15 / 2)) blue))
                        (\<lambda>p. Some 1)))
        = evi_data nir red blue"
    by (rule ext) (simp add: lift2_def evi_data_def split: option.splits)
  then show ?thesis
    using assms
    by (simp add: evi_formula_def band_math_defs select_of_map_of)
qed

lemma addEVI_value:
  assumes "map_of img ''B8'' = Some nir" "map_of img ''B4'' = Some red"
    "map_of img ''B2'' = Some blue"
  shows "addEVI img = Inr (img @ [(fresh_name (bandNames img) ''EVI'', evi_data nir red blue)])"
  unfolding addEVI_def using index_band_appended[OF evi_expression[OF assms]] .

lemma addLAI_value:
  assumes "map_of img ''B8'' = Some nir" "map_of img ''B4'' = Some red"
    "map_of img ''B2'' = Some blue"
  shows "addLAI img = Inr (img @ [(fresh_name (bandNames img) ''LAI'',
            \<lambda>p. map_option (\<lambda>v. 3.618 * v - 0.118) (evi_data nir red blue p))])"
proof -
  have "lift2 (-) (lift2 (*) (\<lambda>p. Some 3.618) (evi_data nir red blue)) (\<lambda>p. Some 0.118)
        = (\<lambda>p. map_option (\<lambda>v. 3.618 * v - 0.118) (evi_data nir red blue p))"
    by (rule ext) (simp add: lift2_def split: option.splits)
  then have "expression img (Sub (Mul (Num 3.618) (Var ''EVI'')) (Num 0.118))
          [(''EVI'',
            expression img evi_formula
              [(''NIR'', select img ''B8''),
               (''RED'', select img ''B4''),
               (''BLUE'', select img ''B2'')])]
     = Inr [(''constant'', \<lambda>p. map_option (\<lambda>v. 3.618 * v - 0.118) (evi_data nir red blue p))]"
    unfolding evi_expression[OF assms]
    by (simp add: band_math_defs)
  then show ?thesis
    unfolding addLAI_def by (rule index_band_appended)
qed

lemma addNBR_frame:
  assumes "set [''B8'', ''B12''] \<subseteq> set (bandNames img)"
  shows "\<exists>d. addNBR img = Inr (img @ [(fresh_name (bandNames img) ''NBR'', d)])"
proof -
  obtain d1 d2 where "select img ''B8'' = Inr [(''B8'', d1)]"
    "select img ''B12'' = Inr [(''B12'', d2)]"
    using assms select_present[of "''B8''" img] select_present[of "''B12''" img] by auto
  then have "\<exists>n0 d. expression img
          (Div (Sub (Var ''NIR'') (Var ''SWIR2'')) (Add (Var ''NIR'') (Var ''SWIR2'')))
          [(''NIR'', select img ''B8''), (''SWIR2'', select img ''B12'')] = Inr [(n0, d)]"
    by (simp add: band_math_defs)
  then show ?thesis
    unfolding addNBR_def using index_band_appended by blast
qed

lemma addNDRE1_frame:
  assumes "set [''B6'', ''B5''] \<subseteq> set (bandNames img)"
  shows "\<exists>d. addNDRE1 img = Inr (img @ [(fresh_name (bandNames img) ''NDRE1'', d)])"
proof -
  obtain d1 d2 where "select img ''B6'' = Inr [(''B6'', d1)]"
    "select img ''B5'' = Inr [(''B5'', d2)]"
    using assms select_present[of "''B6''" img] select_present[of "''B5''" img] by auto
  then have "\<exists>n0 d. expression img
          (Div (Sub (Var ''RedEdge2'') (Var ''RedEdge1'')) (Add (Var ''RedEdge2'') (Var ''RedEdge1'')))
          [(''RedEdge2'', select img ''B6''), (''RedEdge1'', select img ''B5'')] = Inr [(n0, d)]"
    by (simp add: band_math_defs)
  then show ?thesis
    unfolding addNDRE1_def using index_band_appended by blast
qed

lemma addNDRE2_frame:
  assumes "set [''B7'', ''B5''] \<subseteq> set (bandNames img)"
  shows "\<exists>d. addNDRE2 img = Inr (img @ [(fresh_name (bandNames img) ''NDRE2'', d)])"
proof -
  obtain d1 d2 where "select img ''B7'' = Inr [(''B7'', d1)]"
    "select img ''B5'' = Inr [(''B5'', d2)]"
    using assms select_present[of "''B7''" img] select_present[of "''B5''" img] by auto
  then have "\<exists>n0 d. expression img
          (Div (Sub (Var ''RedEdge3'') (Var ''RedEdge1'')) (Add (Var ''RedEdge3'') (Var ''RedEdge1'')))
          [(''RedEdge3'', select img ''B7''), (''RedEdge1'', select img ''B5'')] = Inr [(n0, d)]"
    by (simp add: band_math_defs)
  then show ?thesis
    unfolding addNDRE2_def using index_band_appended by blast
qed

lemma addNDWI_frame:
  assumes "set [''B8'', ''B3''] \<subseteq> set (bandNames img)"
  shows "\<exists>d. addNDWI img = Inr (img @ [(fresh_name (bandNames img) ''NDWI'', d)])"
proof -
  obtain d1 d2 where "select img ''B8'' = Inr [(''B8'', d1)]"
    "select img ''B3'' = Inr [(''B3'', d2)]"
    using assms select_present[of "''B8''" img] select_present[of "''B3''" img] by auto
  then have "\<exists>n0 d. expression img
          (Div (Sub (Var ''Green'') (Var ''NIR'')) (Add (Var ''Green'') (Var ''NIR'')))
          [(''NIR'', select img ''B8''), (''Green'', select img ''B3'')] = Inr [(n0, d)]"
    by (simp add: band_math_defs)
  then show ?thesis
    unfolding addNDWI_def using index_band_appended by blast
qed

lemma normalizedDifference_value:
  assumes "map_of img b1 = Some d1" "map_of img b2 = Some d2"
  shows "normalizedDifference img [b1, b2] = Inr [(''nd'', nd_data d1 d2)]"
  using assms
  by (simp add: normalizedDifference_def select_def bind_ee_def single_band_def)

lemma addNDVI_value:
  assumes "map_of img ''B8'' = Some b8" "map_of img ''B4'' = Some b4"
  shows "addNDVI img = Inr (img @ [(fresh_name (bandNames img) ''NDVI'', nd_data b8 b4)])"
  unfolding addNDVI_def using index_band_appended[OF normalizedDifference_value[OF assms]] .

lemma addGNDVI_value:
  assumes "map_of img ''B8'' = Some b8" "map_of img ''B3'' = Some b3"
  shows "addGNDVI img = Inr (img @ [(fresh_name (bandNames img) ''GNDVI'', nd_data b8 b3)])"
  unfolding addGNDVI_def using index_band_appended[OF normalizedDifference_value[OF assms]] .

lemma map_of_present:
  "b \<in> set (bandNames img) \<Longrightarrow> \<exists>d. map_of img b = Some d"
  using select_present by blast

lemma addNDVI_frame:
  assumes "set [''B8'', ''B4''] \<subseteq> set (bandNames img)"
  shows "\<exists>d. addNDVI img = Inr (img @ [(fresh_name (bandNames img) ''NDVI'', d)])"
  using assms map_of_present[of "''B8''" img] map_of_present[of "''B4''" img] addNDVI_value
  by fastforce

lemma addGNDVI_frame:
  assumes "set [''B8'', ''B3''] \<subseteq> set (bandNames img)"
  shows "\<exists>d. addGNDVI img = Inr (img @ [(fresh_name (bandNames img) ''GNDVI'', d)])"
  using assms map_of_present[of "''B8''" img] map_of_present[of "''B3''" img] addGNDVI_value
  by fastforce

lemma addEVI_frame:
  assumes "set [''B8'', ''B4'', ''B2''] \<subseteq> set (bandNames img)"
  shows "\<exists>d. addEVI img = Inr (img @ [(fresh_name (bandNames img) ''EVI'', d)])"
  using assms map_of_present[of "''B8''" img] map_of_present[of "''B4''" img]
    map_of_present[of "''B2''" img] addEVI_value
  by fastforce

lemma addLAI_frame:
  assumes "set [''B8'', ''B4'', ''B2''] \<subseteq> set (bandNames img)"
  shows "\<exists>d. addLAI img = Inr (img @ [(fresh_name (bandNames img) ''LAI'', d)])"
  using assms map_of_present[of "''B8''" img] map_of_present[of "''B4''" img]
    map_of_present[of "''B2''" img] addLAI_value
  by fastforce

section \<open>Test images\<close>

text \<open>Small images with constant bands, used to evaluate the functions.\<close>

definition only_b4 :: image where
  "only_b4 = [(''B4'', \<lambda>p. Some 1)]"

definition red_edge_bands :: image where
  "red_edge_bands = [(''B5'', \<lambda>p. Some 2), (''B7'', \<lambda>p. Some 6)]"


definition names_of :: "ee_error + image \<Rightarrow> string list" where
  "names_of r = (case r of Inl e \<Rightarrow> [] | Inr out \<Rightarrow> bandNames out)"


definition pixel_of :: "ee_error + image \<Rightarrow> string \<Rightarrow> pixel \<Rightarrow> real option" where
  "pixel_of r b p =
     (case r of Inl e \<Rightarrow> None
      | Inr out \<Rightarrow> (case map_of out b of None \<Rightarrow> None | Some d \<Rightarrow> d p))"


definition negative_nir :: image where
  "negative_nir = [(''B8'', \<lambda>p. Some (- 1)), (''B4'', \<lambda>p. Some 3)]"


definition with_ndvi :: image where
  "with_ndvi = [(''B8'', \<lambda>p. Some 3), (''B4'', \<lambda>p. Some 1), (''NDVI'', \<lambda>p. Some 0)]"


definition nir_red :: image where
  "nir_red = [(''B8'', \<lambda>p. Some 3), (''B4'', \<lambda>p. Some 1)]"


definition nir_red_blue :: image where
  "nir_red_blue = [(''B8'', \<lambda>p. Some 3), (''B4'', \<lambda>p. Some 1), (''B2'', \<lambda>p. Some 0)]"

section \<open>The single-index functions\<close>

text \<open>
  The eleven functions that add one index band, each with the name it gives the band and
  the bands it selects from its input.
\<close>

definition single_index_adders :: "(string \<times> (image \<Rightarrow> ee_error + image) \<times> string list) list" where
  "single_index_adders =
     [(''CRE'', addCRE, [''B5'', ''B7'']),
      (''DSWI'', addDSWI, [''B8'', ''B3'', ''B4'', ''B11'']),
      (''DRS'', addDRS, [''B11'', ''B4'']),
      (''EVI'', addEVI, [''B8'', ''B4'', ''B2'']),
      (''GNDVI'', addGNDVI, [''B8'', ''B3'']),
      (''LAI'', addLAI, [''B8'', ''B4'', ''B2'']),
      (''NBR'', addNBR, [''B8'', ''B12'']),
      (''NDRE1'', addNDRE1, [''B6'', ''B5'']),
      (''NDRE2'', addNDRE2, [''B7'', ''B5'']),
      (''NDVI'', addNDVI, [''B8'', ''B4'']),
      (''NDWI'', addNDWI, [''B8'', ''B3''])]"

text \<open>
  C7, as amended. For every image that contains the bands the function selects, each of
  the eleven single-index functions returns the bands of the input, unchanged and in
  their order, followed by exactly one new band; the new band has the name of the index
  when the input has no band of that name (otherwise \<open>addBands\<close> gives it a suffixed
  name).
\<close>

theorem index_adders_append_one_band:
  assumes "(index, adder, required) \<in> set single_index_adders"
    and "set required \<subseteq> set (bandNames img)"
  shows "\<exists>n d. adder img = Inr (img @ [(n, d)])
           \<and> (index \<notin> set (bandNames img) \<longrightarrow> n = index)"
proof -
  have "\<exists>d. adder img = Inr (img @ [(fresh_name (bandNames img) index, d)])"
    using assms unfolding single_index_adders_def
    by (auto intro: addCRE_frame addDSWI_frame addDRS_frame addEVI_frame addGNDVI_frame
        addLAI_frame addNBR_frame addNDRE1_frame addNDRE2_frame addNDVI_frame addNDWI_frame)
  then show ?thesis
    using fresh_name_unused by blast
qed

theorem index_adders_append_one_band_witness:
  "(''CRE'', addCRE, [''B5'', ''B7'']) \<in> set single_index_adders
   \<and> set [''B5'', ''B7''] \<subseteq> set (bandNames red_edge_bands)
   \<and> (\<exists>d. addCRE red_edge_bands = Inr (red_edge_bands @ [(''CRE'', d)]))"
proof -
  have h1: "(''CRE'', addCRE, [''B5'', ''B7'']) \<in> set single_index_adders"
    by (simp add: single_index_adders_def)
  have h2: "set [''B5'', ''B7''] \<subseteq> set (bandNames red_edge_bands)"
    by (simp add: bandNames_def red_edge_bands_def)
  have h3: "''CRE'' \<notin> set (bandNames red_edge_bands)"
    by (simp add: bandNames_def red_edge_bands_def)
  from index_adders_append_one_band[OF h1 h2] h3
  have "\<exists>d. addCRE red_edge_bands = Inr (red_edge_bands @ [(''CRE'', d)])" by blast
  with h1 h2 show ?thesis by blast
qed

text \<open>
  C7 as stated speaks of every input image. On an image that has only the band \<open>B4\<close>,
  \<open>addCRE\<close> selects \<open>B5\<close> and \<open>B7\<close>, which do not exist, and its value is an error: no
  image is returned.
\<close>

theorem index_adder_fails_without_its_bands:
  "isl (addCRE only_b4)"
  by (simp add: addCRE_def only_b4_def band_math_defs select_def)

section \<open>NDVI\<close>

text \<open>
  C5, as amended. For every image with bands \<open>B8\<close> and \<open>B4\<close> and no band named
  \<open>NDVI\<close>, \<open>addNDVI\<close> returns the input with exactly one band appended, named
  \<open>NDVI\<close>. At a pixel where both inputs are unmasked and non-negative and their sum is
  not zero, its value is \<open>(B8 - B4) / (B8 + B4)\<close>; at a pixel where an input is masked
  or negative, it is masked.
\<close>

theorem addNDVI_normalized_difference:
  assumes "map_of img ''B8'' = Some b8" and "map_of img ''B4'' = Some b4"
    and "''NDVI'' \<notin> set (bandNames img)"
  shows "\<exists>ndvi. addNDVI img = Inr (img @ [(''NDVI'', ndvi)])
     \<and> (\<forall>p x y. b8 p = Some x \<and> b4 p = Some y \<and> 0 \<le> x \<and> 0 \<le> y \<and> x + y \<noteq> 0
            \<longrightarrow> ndvi p = Some ((x - y) / (x + y)))
     \<and> (\<forall>p. b8 p = None \<or> b4 p = None \<or> (\<exists>x. b8 p = Some x \<and> x < 0)
              \<or> (\<exists>y. b4 p = Some y \<and> y < 0)
            \<longrightarrow> ndvi p = None)"
proof -
  have run: "addNDVI img = Inr (img @ [(''NDVI'', nd_data b8 b4)])"
    using addNDVI_value[OF assms(1,2)] fresh_name_unused[OF assms(3)] by simp
  have val: "\<forall>p x y. b8 p = Some x \<and> b4 p = Some y \<and> 0 \<le> x \<and> 0 \<le> y \<and> x + y \<noteq> 0
            \<longrightarrow> nd_data b8 b4 p = Some ((x - y) / (x + y))"
    by (simp add: nd_data_def ee_divide_def)
  have msk: "\<forall>p. b8 p = None \<or> b4 p = None \<or> (\<exists>x. b8 p = Some x \<and> x < 0)
              \<or> (\<exists>y. b4 p = Some y \<and> y < 0)
            \<longrightarrow> nd_data b8 b4 p = None"
    by (auto simp: nd_data_def split: option.splits)
  show ?thesis using run val msk by blast
qed

theorem addNDVI_normalized_difference_witness:
  "map_of nir_red ''B8'' = Some (\<lambda>p. Some 3) \<and> map_of nir_red ''B4'' = Some (\<lambda>p. Some 1)
   \<and> ''NDVI'' \<notin> set (bandNames nir_red)
   \<and> names_of (addNDVI nir_red) = [''B8'', ''B4'', ''NDVI'']
   \<and> pixel_of (addNDVI nir_red) ''NDVI'' (0, 0) = Some (1 / 2)"
proof -
  have h1: "map_of nir_red ''B8'' = Some (\<lambda>p. Some 3)" by (simp add: nir_red_def)
  have h2: "map_of nir_red ''B4'' = Some (\<lambda>p. Some 1)" by (simp add: nir_red_def)
  have h3: "''NDVI'' \<notin> set (bandNames nir_red)" by (simp add: nir_red_def bandNames_def)
  from addNDVI_normalized_difference[OF h1 h2 h3]
  obtain ndvi where run: "addNDVI nir_red = Inr (nir_red @ [(''NDVI'', ndvi)])"
    and val: "\<forall>p x y. (\<lambda>p. Some 3) p = Some x \<and> (\<lambda>p. Some 1) p = Some y \<and> 0 \<le> x \<and> 0 \<le> y \<and> x + y \<noteq> 0
            \<longrightarrow> ndvi p = Some ((x - y) / (x + y))"
    by blast
  have "ndvi (0, 0) = Some ((3 - 1) / (3 + 1))"
    using val[rule_format, where p = "(0, 0)" and x = 3 and y = 1] by simp
  then have "pixel_of (addNDVI nir_red) ''NDVI'' (0, 0) = Some (1 / 2)"
    using run by (simp add: pixel_of_def nir_red_def)
  moreover have "names_of (addNDVI nir_red) = [''B8'', ''B4'', ''NDVI'']"
    using run by (simp add: names_of_def bandNames_def nir_red_def)
  ultimately show ?thesis using h1 h2 h3 by blast
qed

lemma fresh_name_NDVI_taken: "fresh_name [''B8'', ''B4'', ''NDVI''] ''NDVI'' = ''NDVI_1''"
  by (simp add: fresh_name_def decimal.simps digits_def upt_rec)

text \<open>
  C5 as stated fails in two ways. With \<open>B8 = -1\<close> and \<open>B4 = 3\<close> the quotient
  \<open>(B8 - B4) / (B8 + B4)\<close> is \<open>-2\<close>, but \<open>normalizedDifference\<close> masks the pixel. On an
  image that already has a band \<open>NDVI\<close>, the band \<open>NDVI\<close> of the result is the old one
  and the new band is named \<open>NDVI_1\<close>.
\<close>

theorem addNDVI_masks_negative_and_renames:
  "names_of (addNDVI negative_nir) = [''B8'', ''B4'', ''NDVI'']
   \<and> pixel_of (addNDVI negative_nir) ''NDVI'' (0, 0) = None
   \<and> ((- 1) - 3) / ((- 1) + 3) = (- 2 :: real)
   \<and> names_of (addNDVI with_ndvi) = [''B8'', ''B4'', ''NDVI'', ''NDVI_1'']
   \<and> pixel_of (addNDVI with_ndvi) ''NDVI'' (0, 0) = Some 0
   \<and> pixel_of (addNDVI with_ndvi) ''NDVI_1'' (0, 0) = Some (1 / 2)"
proof -
  have a: "addNDVI negative_nir
      = Inr (negative_nir @ [(''NDVI'', nd_data (\<lambda>p. Some (- 1)) (\<lambda>p. Some 3))])"
    using addNDVI_value[of negative_nir "\<lambda>p. Some (- 1)" "\<lambda>p. Some 3"]
    by (simp add: negative_nir_def bandNames_def fresh_name_def)
  have b: "addNDVI with_ndvi
      = Inr (with_ndvi @ [(''NDVI_1'', nd_data (\<lambda>p. Some 3) (\<lambda>p. Some 1))])"
    using addNDVI_value[of with_ndvi "\<lambda>p. Some 3" "\<lambda>p. Some 1"]
    by (simp add: with_ndvi_def bandNames_def fresh_name_NDVI_taken)
  show ?thesis
    unfolding a b
    by (simp add: names_of_def pixel_of_def bandNames_def negative_nir_def with_ndvi_def
        nd_data_def ee_divide_def)
qed

section \<open>LAI and EVI\<close>

text \<open>
  C6. For every image with bands \<open>B8\<close>, \<open>B4\<close> and \<open>B2\<close>, \<open>addEVI\<close> and \<open>addLAI\<close> both
  succeed, each appends one band to the input, and at every pixel the band appended by
  \<open>addLAI\<close> is \<open>3.618\<close> times the band appended by \<open>addEVI\<close>, minus \<open>0.118\<close> (and masked
  where that one is masked). The appended bands are named \<open>EVI\<close> and \<open>LAI\<close> when the
  input has no bands of these names.
\<close>

theorem addLAI_is_linear_in_EVI:
  assumes "''B8'' \<in> set (bandNames img)" and "''B4'' \<in> set (bandNames img)"
    and "''B2'' \<in> set (bandNames img)"
  shows "\<exists>evi_name evi lai_name lai.
       addEVI img = Inr (img @ [(evi_name, evi)])
     \<and> addLAI img = Inr (img @ [(lai_name, lai)])
     \<and> (\<forall>p. lai p = map_option (\<lambda>v. 3.618 * v - 0.118) (evi p))
     \<and> (''EVI'' \<notin> set (bandNames img) \<longrightarrow> evi_name = ''EVI'')
     \<and> (''LAI'' \<notin> set (bandNames img) \<longrightarrow> lai_name = ''LAI'')"
proof -
  from map_of_present[OF assms(1)] obtain nir where b1: "map_of img ''B8'' = Some nir" ..
  from map_of_present[OF assms(2)] obtain red where b2: "map_of img ''B4'' = Some red" ..
  from map_of_present[OF assms(3)] obtain blue where b3: "map_of img ''B2'' = Some blue" ..
  let ?evi = "evi_data nir red blue"
  let ?lai = "\<lambda>p. map_option (\<lambda>v. 3.618 * v - 0.118) (?evi p)"
  have e: "addEVI img = Inr (img @ [(fresh_name (bandNames img) ''EVI'', ?evi)])"
    by (rule addEVI_value[OF b1 b2 b3])
  have l: "addLAI img = Inr (img @ [(fresh_name (bandNames img) ''LAI'', ?lai)])"
    by (rule addLAI_value[OF b1 b2 b3])
  have ne: "''EVI'' \<notin> set (bandNames img) \<longrightarrow> fresh_name (bandNames img) ''EVI'' = ''EVI''"
    by (rule impI) (rule fresh_name_unused)
  have nl: "''LAI'' \<notin> set (bandNames img) \<longrightarrow> fresh_name (bandNames img) ''LAI'' = ''LAI''"
    by (rule impI) (rule fresh_name_unused)
  have rel: "\<forall>p. ?lai p = map_option (\<lambda>v. 3.618 * v - 0.118) (?evi p)"
    by (rule allI) (rule refl)
  show ?thesis
    apply (rule exI[of _ "fresh_name (bandNames img) ''EVI''"])
    apply (rule exI[of _ ?evi])
    apply (rule exI[of _ "fresh_name (bandNames img) ''LAI''"])
    apply (rule exI[of _ ?lai])
    apply (intro conjI)
        apply (rule e)
       apply (rule l)
      apply (rule rel)
     apply (rule ne)
    apply (rule nl)
    done
qed

theorem addLAI_is_linear_in_EVI_witness:
  "''B8'' \<in> set (bandNames nir_red_blue) \<and> ''B4'' \<in> set (bandNames nir_red_blue)
   \<and> ''B2'' \<in> set (bandNames nir_red_blue)
   \<and> names_of (addEVI nir_red_blue) = [''B8'', ''B4'', ''B2'', ''EVI'']
   \<and> names_of (addLAI nir_red_blue) = [''B8'', ''B4'', ''B2'', ''LAI'']
   \<and> pixel_of (addLAI nir_red_blue) ''LAI'' (0, 0)
       = map_option (\<lambda>v. 3.618 * v - 0.118) (pixel_of (addEVI nir_red_blue) ''EVI'' (0, 0))"
proof -
  have h1: "''B8'' \<in> set (bandNames nir_red_blue)" by (simp add: nir_red_blue_def bandNames_def)
  have h2: "''B4'' \<in> set (bandNames nir_red_blue)" by (simp add: nir_red_blue_def bandNames_def)
  have h3: "''B2'' \<in> set (bandNames nir_red_blue)" by (simp add: nir_red_blue_def bandNames_def)
  have n1: "''EVI'' \<notin> set (bandNames nir_red_blue)" by (simp add: nir_red_blue_def bandNames_def)
  have n2: "''LAI'' \<notin> set (bandNames nir_red_blue)" by (simp add: nir_red_blue_def bandNames_def)
  from addLAI_is_linear_in_EVI[OF h1 h2 h3]
  obtain evi_name evi lai_name lai where
    e: "addEVI nir_red_blue = Inr (nir_red_blue @ [(evi_name, evi)])"
    and l: "addLAI nir_red_blue = Inr (nir_red_blue @ [(lai_name, lai)])"
    and rel: "\<forall>p. lai p = map_option (\<lambda>v. 3.618 * v - 0.118) (evi p)"
    and ne: "''EVI'' \<notin> set (bandNames nir_red_blue) \<longrightarrow> evi_name = ''EVI''"
    and nl: "''LAI'' \<notin> set (bandNames nir_red_blue) \<longrightarrow> lai_name = ''LAI''"
    by (elim exE conjE) (rule that)
  have en: "evi_name = ''EVI''" using ne n1 by simp
  have ln: "lai_name = ''LAI''" using nl n2 by simp
  have c1: "names_of (addEVI nir_red_blue) = [''B8'', ''B4'', ''B2'', ''EVI'']"
    unfolding e en by (simp add: names_of_def bandNames_def nir_red_blue_def)
  have c2: "names_of (addLAI nir_red_blue) = [''B8'', ''B4'', ''B2'', ''LAI'']"
    unfolding l ln by (simp add: names_of_def bandNames_def nir_red_blue_def)
  have p1: "pixel_of (addEVI nir_red_blue) ''EVI'' (0, 0) = evi (0, 0)"
    unfolding e en by (simp add: pixel_of_def nir_red_blue_def)
  have p2: "pixel_of (addLAI nir_red_blue) ''LAI'' (0, 0) = lai (0, 0)"
    unfolding l ln by (simp add: pixel_of_def nir_red_blue_def)
  have c3: "pixel_of (addLAI nir_red_blue) ''LAI'' (0, 0)
       = map_option (\<lambda>v. 3.618 * v - 0.118) (pixel_of (addEVI nir_red_blue) ''EVI'' (0, 0))"
    unfolding p1 p2 using rel by (rule spec)
  show ?thesis
    by (intro conjI h1 h2 h3 c1 c2 c3)
qed

section \<open>The band check of addNDRE3 and addRDI\<close>

lemma hasBands_always_true:
  "array_every (\<lambda>b. JS_object (list_contains names b)) bands"
  by (simp add: array_every_def list_all_iff)

lemma addNDRE3_unguarded:
  "addNDRE3 img =
     bind_ee (bind_ee
        (expression img
           (Div (Sub (Var ''RedEdge4'') (Var ''RedEdge3''))
                (Add (Var ''RedEdge4'') (Var ''RedEdge3'')))
           [(''RedEdge4'', select img ''B8A''),
            (''RedEdge3'', select img ''B7'')])
        (\<lambda>x. rename x ''NDRE3''))
      (\<lambda>NDRE3. Inr (addBands img NDRE3))"
  unfolding addNDRE3_def Let_def Algorithms_If_def
  by (simp only: hasBands_always_true if_True)

lemma addRDI_unguarded:
  "addRDI img =
     bind_ee (bind_ee
        (expression img (Div (Var ''SWIR2'') (Var ''RedEdge4''))
           [(''SWIR2'', select img ''B12''),
            (''RedEdge4'', select img ''B8A'')])
        (\<lambda>x. rename x ''RDI''))
      (\<lambda>RDI. Inr (addBands img RDI))"
  unfolding addRDI_def Let_def Algorithms_If_def
  by (simp only: hasBands_always_true if_True)

lemma select_missing: "b \<notin> set (bandNames img) \<Longrightarrow> isl (select img b)"
  by (simp add: select_def bandNames_def map_of_eq_None_iff[THEN iffD2])

lemma isl_bind_ee: "isl x \<Longrightarrow> isl (bind_ee x k)"
  by (cases x) (simp_all add: bind_ee_def)

text \<open>
  When the image has the bands, each of the two functions appends its index band.
\<close>

lemma index_band_appended_direct:
  assumes "x = Inr [(n0, d)]"
  shows "bind_ee (bind_ee x (\<lambda>y. rename y nm)) (\<lambda>I. Inr (addBands img I))
         = Inr (img @ [(fresh_name (bandNames img) nm, d)])"
  using assms
  by (simp add: bind_ee_def rename_def single_band_def addBands_single)

lemma addNDRE3_with_bands:
  assumes "set [''B8A'', ''B7''] \<subseteq> set (bandNames img)"
  shows "\<exists>d. addNDRE3 img = Inr (img @ [(fresh_name (bandNames img) ''NDRE3'', d)])"
proof -
  obtain d1 d2 where "select img ''B8A'' = Inr [(''B8A'', d1)]"
    "select img ''B7'' = Inr [(''B7'', d2)]"
    using assms select_present[of "''B8A''" img] select_present[of "''B7''" img] by auto
  then have "\<exists>n0 d. expression img
          (Div (Sub (Var ''RedEdge4'') (Var ''RedEdge3''))
               (Add (Var ''RedEdge4'') (Var ''RedEdge3'')))
          [(''RedEdge4'', select img ''B8A''), (''RedEdge3'', select img ''B7'')] = Inr [(n0, d)]"
    by (simp add: band_math_defs)
  then show ?thesis
    unfolding addNDRE3_unguarded using index_band_appended_direct by blast
qed

lemma addRDI_with_bands:
  assumes "set [''B12'', ''B8A''] \<subseteq> set (bandNames img)"
  shows "\<exists>d. addRDI img = Inr (img @ [(fresh_name (bandNames img) ''RDI'', d)])"
proof -
  obtain d1 d2 where "select img ''B12'' = Inr [(''B12'', d1)]"
    "select img ''B8A'' = Inr [(''B8A'', d2)]"
    using assms select_present[of "''B12''" img] select_present[of "''B8A''" img] by auto
  then have "\<exists>n0 d. expression img (Div (Var ''SWIR2'') (Var ''RedEdge4''))
          [(''SWIR2'', select img ''B12''), (''RedEdge4'', select img ''B8A'')] = Inr [(n0, d)]"
    by (simp add: band_math_defs)
  then show ?thesis
    unfolding addRDI_unguarded using index_band_appended_direct by blast
qed

text \<open>
  C10. For every image and every list of band names, \<open>hasBands\<close> is true, so both
  functions always take the branch that computes the index (\<open>addNDRE3_unguarded\<close>,
  \<open>addRDI_unguarded\<close>). On an image that has only the band \<open>B4\<close>, the value of each
  function is the error of the failed \<open>select\<close>, not the input image.
\<close>

theorem band_check_never_guards:
  "addNDRE3 only_b4 \<noteq> Inr only_b4 \<and> isl (addNDRE3 only_b4)
   \<and> addRDI only_b4 \<noteq> Inr only_b4 \<and> isl (addRDI only_b4)"
proof -
  have m1: "isl (select only_b4 ''B8A'')" and m2: "isl (select only_b4 ''B12'')"
    by (simp_all add: select_missing only_b4_def bandNames_def)
  have e1: "isl (expression only_b4
           (Div (Sub (Var ''RedEdge4'') (Var ''RedEdge3''))
                (Add (Var ''RedEdge4'') (Var ''RedEdge3'')))
           [(''RedEdge4'', select only_b4 ''B8A''),
            (''RedEdge3'', select only_b4 ''B7'')])"
    using m1 by (simp add: expression_def binop_def isl_bind_ee)
  have e2: "isl (expression only_b4 (Div (Var ''SWIR2'') (Var ''RedEdge4''))
           [(''SWIR2'', select only_b4 ''B12''),
            (''RedEdge4'', select only_b4 ''B8A'')])"
    using m2 by (simp add: expression_def binop_def isl_bind_ee)
  have a: "isl (addNDRE3 only_b4)"
    unfolding addNDRE3_unguarded using e1 by (intro isl_bind_ee)
  have b: "isl (addRDI only_b4)"
    unfolding addRDI_unguarded using e2 by (intro isl_bind_ee)
  show ?thesis using a b by auto
qed

section \<open>Cloud mask of Sentinel-2\<close>

text \<open>
  The mask that \<open>maskS2clouds\<close> computes from the band \<open>QA60\<close>, and a tile with one
  cloudy pixel.
\<close>

definition clear_sky :: "band_data \<Rightarrow> band_data" where
  "clear_sky qa =
     lift2 (\<lambda>u v. if u \<noteq> 0 \<and> v \<noteq> 0 then 1 else 0)
       (lift1 (\<lambda>x. if x = 0 then 1 else 0) (lift1 (\<lambda>x. of_int (\<lfloor>x\<rfloor> AND 1024)) qa))
       (lift1 (\<lambda>x. if x = 0 then 1 else 0) (lift1 (\<lambda>x. of_int (\<lfloor>x\<rfloor> AND 2048)) qa))"

definition s2_qa :: band_data where
  "s2_qa = (\<lambda>p. if p = (0, 0) then Some 1024 else Some 0)"

definition s2_tile :: image where
  "s2_tile = [(''B4'', \<lambda>p. Some 2500), (''QA60'', s2_qa)]"

lemma cloud_mask_of_QA60:
  "ee_and (ee_eq (bitwiseAnd [(''QA60'', qa)] (js_shiftl 1 10)) 0)
          (ee_eq (bitwiseAnd [(''QA60'', qa)] (js_shiftl 1 11)) 0)
   = [(''QA60'', clear_sky qa)]"
  by (simp add: js_shiftl_vals ee_and_def ee_eq_def bitwiseAnd_def map_bands_def clear_sky_def)

lemma maskS2clouds_value:
  assumes "map_of img ''QA60'' = Some qa"
  shows "maskS2clouds img
         = Inr (map_bands (lift1 (\<lambda>x. ee_divide x 10000))
                  (map_bands (mask_with (clear_sky qa)) img))"
  unfolding maskS2clouds_def select_of_map_of[OF assms] Let_def
  by (simp add: bind_ee_def cloud_mask_of_QA60 updateMask_def divide_def)

lemma bit_10_11:
  "(q AND 1024 = 0) = (\<not> bit q 10)" "(q AND 2048 = 0) = (\<not> bit q 11)" for q :: int
proof -
  have "(1024 :: int) = 2 ^ 10" "(2048 :: int) = 2 ^ 11" by simp_all
  then show "(q AND 1024 = 0) = (\<not> bit q 10)" "(q AND 2048 = 0) = (\<not> bit q 11)"
    by (simp_all only: and_exp_eq_0_iff_not_bit)
qed

lemma clear_sky_int:
  assumes "qa p = Some (of_int q)"
  shows "clear_sky qa p = Some (if \<not> bit q 10 \<and> \<not> bit q 11 then 1 else 0)"
  using assms by (simp add: clear_sky_def lift1_def lift2_def bit_10_11)

lemma clear_sky_masked: "qa p = None \<Longrightarrow> clear_sky qa p = None"
  by (simp add: clear_sky_def lift1_def lift2_def)

lemma masked_band_value:
  assumes "d p = Some v" "qa p = Some (of_int q)"
  shows "lift1 (\<lambda>x. ee_divide x 10000) (mask_with (clear_sky qa) d) p
         = (if \<not> bit q 10 \<and> \<not> bit q 11 then Some (v / 10000) else None)"
  using assms clear_sky_int[of qa p q]
  by (simp add: lift1_def mask_with_def ee_divide_def)

lemma masked_band_none:
  assumes "d p = None \<or> qa p = None"
  shows "lift1 (\<lambda>x. ee_divide x 10000) (mask_with (clear_sky qa) d) p = None"
  using assms clear_sky_masked[of qa p]
  by (auto simp: lift1_def mask_with_def split: option.splits)

text \<open>
  C4. For every image with a band \<open>QA60\<close>, \<open>maskS2clouds\<close> returns an image with the
  bands of the input. At a pixel where a band has the value \<open>v\<close> and \<open>QA60\<close> has the
  integer value \<open>q\<close>, the band of the result has the value \<open>v / 10000\<close> if bits 10 and 11
  of \<open>q\<close> are both zero, and is masked otherwise. A pixel that is masked in the input
  band or in \<open>QA60\<close> is masked in the result: to keep a pixel is to keep one the input has.
\<close>

theorem maskS2clouds_keeps_clear_pixels:
  assumes "map_of img ''QA60'' = Some qa"
  shows "\<exists>out. maskS2clouds img = Inr out \<and> bandNames out = bandNames img
     \<and> (\<forall>k p v q. k < length img \<and> snd (img ! k) p = Some v \<and> qa p = Some (of_int q) \<longrightarrow>
          snd (out ! k) p = (if \<not> bit q 10 \<and> \<not> bit q 11 then Some (v / 10000) else None))
     \<and> (\<forall>k p. k < length img \<and> (snd (img ! k) p = None \<or> qa p = None) \<longrightarrow>
          snd (out ! k) p = None)"
proof -
  let ?g = "\<lambda>d. lift1 (\<lambda>x. ee_divide x 10000) (mask_with (clear_sky qa) d)"
  let ?out = "map (\<lambda>b. (fst b, ?g (snd b))) img"
  have run: "maskS2clouds img = Inr ?out"
    unfolding maskS2clouds_value[OF assms] by (simp add: map_bands_def comp_def)
  have names: "bandNames ?out = bandNames img"
    by (simp add: bandNames_def comp_def)
  have band: "snd (?out ! k) = ?g (snd (img ! k))" if "k < length img" for k
    using that by simp
  have kept: "\<forall>k p v q. k < length img \<and> snd (img ! k) p = Some v \<and> qa p = Some (of_int q) \<longrightarrow>
          snd (?out ! k) p = (if \<not> bit q 10 \<and> \<not> bit q 11 then Some (v / 10000) else None)"
  proof (intro allI impI)
    fix k p v q
    assume a: "k < length img \<and> snd (img ! k) p = Some v \<and> qa p = Some (of_int q)"
    then have "?g (snd (img ! k)) p = (if \<not> bit q 10 \<and> \<not> bit q 11 then Some (v / 10000) else None)"
      using masked_band_value[of "snd (img ! k)" p v qa q] by blast
    then show "snd (?out ! k) p = (if \<not> bit q 10 \<and> \<not> bit q 11 then Some (v / 10000) else None)"
      using band[of k] a by simp
  qed
  have dropped: "\<forall>k p. k < length img \<and> (snd (img ! k) p = None \<or> qa p = None) \<longrightarrow>
          snd (?out ! k) p = None"
  proof (intro allI impI)
    fix k p
    assume a: "k < length img \<and> (snd (img ! k) p = None \<or> qa p = None)"
    then have "?g (snd (img ! k)) p = None"
      using masked_band_none[of "snd (img ! k)" p qa] by blast
    then show "snd (?out ! k) p = None"
      using band[of k] a by simp
  qed
  show ?thesis
    apply (rule exI[of _ ?out])
    apply (intro conjI)
       apply (rule run)
      apply (rule names)
     apply (rule kept)
    apply (rule dropped)
    done
qed

theorem maskS2clouds_keeps_clear_pixels_witness:
  "map_of s2_tile ''QA60'' = Some s2_qa
   \<and> (\<exists>out. maskS2clouds s2_tile = Inr out \<and> bandNames out = [''B4'', ''QA60'']
         \<and> snd (out ! 0) (0, 0) = None \<and> snd (out ! 0) (1, 0) = Some (1 / 4))"
proof -
  have h: "map_of s2_tile ''QA60'' = Some s2_qa" by (simp add: s2_tile_def)
  from maskS2clouds_keeps_clear_pixels[OF h]
  obtain out where run: "maskS2clouds s2_tile = Inr out"
    and names: "bandNames out = bandNames s2_tile"
    and kept: "\<forall>k p v q. k < length s2_tile \<and> snd (s2_tile ! k) p = Some v
          \<and> s2_qa p = Some (of_int q) \<longrightarrow>
          snd (out ! k) p = (if \<not> bit q 10 \<and> \<not> bit q 11 then Some (v / 10000) else None)"
    by (elim exE conjE) (rule that)
  have b10: "bit (1024 :: int) 10" and b0: "\<not> bit (0 :: int) 10" "\<not> bit (0 :: int) 11"
    by (simp_all add: bit_iff_odd)
  have "snd (out ! 0) (0, 0) = (if \<not> bit (1024 :: int) 10 \<and> \<not> bit (1024 :: int) 11
          then Some (2500 / 10000) else None)"
    using kept[rule_format, where k = 0 and p = "(0, 0)" and v = 2500 and q = 1024]
    by (simp add: s2_tile_def s2_qa_def)
  then have c1: "snd (out ! 0) (0, 0) = None" using b10 by simp
  have "snd (out ! 0) (1, 0) = (if \<not> bit (0 :: int) 10 \<and> \<not> bit (0 :: int) 11
          then Some (2500 / 10000) else None)"
    using kept[rule_format, where k = 0 and p = "(1, 0)" and v = 2500 and q = 0]
    by (simp add: s2_tile_def s2_qa_def)
  then have c2: "snd (out ! 0) (1, 0) = Some (1 / 4)" using b0 by simp
  have c0: "bandNames out = [''B4'', ''QA60'']"
    using names by (simp add: s2_tile_def bandNames_def)
  have "\<exists>out. maskS2clouds s2_tile = Inr out \<and> bandNames out = [''B4'', ''QA60'']
         \<and> snd (out ! 0) (0, 0) = None \<and> snd (out ! 0) (1, 0) = Some (1 / 4)"
    apply (rule exI[of _ out])
    apply (intro conjI)
       apply (rule run)
      apply (rule c0)
     apply (rule c1)
    apply (rule c2)
    done
  with h show ?thesis by (rule conjI)
qed

section \<open>Terrain metrics (the terrain script)\<close>

text \<open>
  The script takes the mosaic of the elevation dataset and the area of interest, computes
  slope and aspect with \<open>ee.Terrain\<close> (the parameters \<open>slope_of\<close> and \<open>aspect_of\<close>, whose
  results are images with the single band \<open>slope\<close> and \<open>aspect\<close>), derives northness and
  eastness from the aspect, and hands the combined image to \<open>Export.image.toDrive\<close>.
  \<open>clip\<close> masks the pixels outside the geometry; \<open>toFloat\<close> and \<open>setDefaultProjection\<close>
  do not change real pixel values. \<open>Math.PI\<close> is read as \<open>pi\<close>.
\<close>

type_synonym geometry = "pixel \<Rightarrow> bool"

definition clip :: "image \<Rightarrow> geometry \<Rightarrow> image" where
  "clip img aoi = map_bands (\<lambda>d p. if aoi p then d p else None) img"

record export_task =
  task_image :: "ee_error + image"
  description :: string
  folder :: string
  fileNamePrefix :: string
  region :: geometry
  scale :: real
  crs :: string
  maxPixels :: real

definition toFloat :: "image \<Rightarrow> image" where
  "toFloat img = img"

definition setDefaultProjection :: "image \<Rightarrow> string \<Rightarrow> real \<Rightarrow> image" where
  "setDefaultProjection img crs_name scale_m = img"

definition ee_Terrain_slope :: "(image \<Rightarrow> band_data) \<Rightarrow> image \<Rightarrow> image" where
  "ee_Terrain_slope slope_of input = [(''slope'', slope_of input)]"

definition ee_Terrain_aspect :: "(image \<Rightarrow> band_data) \<Rightarrow> image \<Rightarrow> image" where
  "ee_Terrain_aspect aspect_of input = [(''aspect'', aspect_of input)]"

definition multiply :: "image \<Rightarrow> real \<Rightarrow> image" where
  "multiply img c = map_bands (lift1 (\<lambda>x. x * c)) img"

definition ee_cos :: "image \<Rightarrow> image" where
  "ee_cos img = map_bands (lift1 cos) img"

definition ee_sin :: "image \<Rightarrow> image" where
  "ee_sin img = map_bands (lift1 sin) img"

record terrain_script =
  northness :: "ee_error + image"
  eastness :: "ee_error + image"
  terrain :: "ee_error + image"
  exported :: export_task

definition terrain_metrics ::
  "image \<Rightarrow> geometry \<Rightarrow> (image \<Rightarrow> band_data) \<Rightarrow> (image \<Rightarrow> band_data) \<Rightarrow> terrain_script" where
  "terrain_metrics cdem_mosaic aoi slope_of aspect_of =
     (let dem = setDefaultProjection (toFloat (clip cdem_mosaic aoi)) ''EPSG:3348'' 23.19;
          slope = rename (ee_Terrain_slope slope_of dem) ''slope'';
          aspect = rename (ee_Terrain_aspect aspect_of dem) ''aspect'';
          northness = bind_ee aspect (\<lambda>a. rename (ee_cos (divide (multiply a pi) 180)) ''northness'');
          eastness = bind_ee aspect (\<lambda>a. rename (ee_sin (divide (multiply a pi) 180)) ''eastness'');
          terrain =
            bind_ee (bind_ee slope (\<lambda>s. rename s ''slope'')) (\<lambda>s.
            bind_ee northness (\<lambda>n.
            bind_ee (bind_ee aspect (\<lambda>a. rename a ''aspect'')) (\<lambda>a.
              Inr (addBands (addBands (addBands dem s) n) a))))
      in \<lparr>northness = northness, eastness = eastness, terrain = terrain,
          exported =
            \<lparr>task_image = terrain,
             description = ''terrain_metrics_export'',
             folder = ''terrain_exports'',
             fileNamePrefix = ''terrain_metrics'',
             region = aoi,
             scale = 30,
             crs = ''EPSG:3348'',
             maxPixels = 10 ^ 13\<rparr>\<rparr>)"

definition north_data :: "band_data \<Rightarrow> band_data" where
  "north_data asp = lift1 cos (lift1 (\<lambda>x. ee_divide x 180) (lift1 (\<lambda>x. x * pi) asp))"

definition east_data :: "band_data \<Rightarrow> band_data" where
  "east_data asp = lift1 sin (lift1 (\<lambda>x. ee_divide x 180) (lift1 (\<lambda>x. x * pi) asp))"

lemma north_data_value: "north_data asp p = map_option (\<lambda>a. cos (a * pi / 180)) (asp p)"
  by (simp add: north_data_def lift1_def ee_divide_def split: option.splits)

lemma single_band_image: "bandNames img = [n] \<Longrightarrow> \<exists>d. img = [(n, d)]"
  by (cases img) (auto simp: bandNames_def)

lemma northness_value:
  "bind_ee (rename (ee_Terrain_aspect aspect_of dem) ''aspect'')
      (\<lambda>a. rename (ee_cos (divide (multiply a pi) 180)) ''northness'')
   = Inr [(''northness'', north_data (aspect_of dem))]"
  by (simp add: bind_ee_def rename_def single_band_def ee_Terrain_aspect_def ee_cos_def
      divide_def multiply_def map_bands_def north_data_def)

lemma eastness_value:
  "bind_ee (rename (ee_Terrain_aspect aspect_of dem) ''aspect'')
      (\<lambda>a. rename (ee_sin (divide (multiply a pi) 180)) ''eastness'')
   = Inr [(''eastness'', east_data (aspect_of dem))]"
  by (simp add: bind_ee_def rename_def single_band_def ee_Terrain_aspect_def ee_sin_def
      divide_def multiply_def map_bands_def east_data_def)

lemma slope_value:
  "bind_ee (rename (ee_Terrain_slope slope_of dem) ''slope'') (\<lambda>s. rename s ''slope'')
   = Inr [(''slope'', slope_of dem)]"
  by (simp add: bind_ee_def rename_def single_band_def ee_Terrain_slope_def)

lemma aspect_value:
  "bind_ee (rename (ee_Terrain_aspect aspect_of dem) ''aspect'') (\<lambda>a. rename a ''aspect'')
   = Inr [(''aspect'', aspect_of dem)]"
  by (simp add: bind_ee_def rename_def single_band_def ee_Terrain_aspect_def)

lemma terrain_bands:
  "addBands (addBands (addBands [(''elevation'', e)] [(''slope'', s)]) [(''northness'', n)])
      [(''aspect'', a)]
   = [(''elevation'', e), (''slope'', s), (''northness'', n), (''aspect'', a)]"
  by (simp add: addBands_single bandNames_def fresh_name_unused)


lemma bind_ee_Inr: "bind_ee (Inr v) k = k v"
  by (simp add: bind_ee_def)

lemma dem_value:
  "setDefaultProjection (toFloat (clip [(''elevation'', e)] aoi)) c m
   = [(''elevation'', \<lambda>p. if aoi p then e p else None)]"
  by (simp add: setDefaultProjection_def toFloat_def clip_def map_bands_def cong: if_cong)

definition flat_dem :: image where
  "flat_dem = [(''elevation'', \<lambda>p. Some 100)]"

text \<open>
  C8. When the elevation mosaic has the single band \<open>elevation\<close>, the image handed to
  the export has exactly the bands \<open>elevation\<close>, \<open>slope\<close>, \<open>northness\<close>, \<open>aspect\<close> in this
  order; at every pixel the northness is the cosine of the aspect times \<open>pi / 180\<close> (masked
  where the aspect is); the band \<open>eastness\<close> is computed, as an image of its own, and is
  not a band of the exported image.
\<close>

theorem terrain_export_bands:
  assumes "bandNames cdem_mosaic = [''elevation'']"
  shows "\<exists>t elev slp north asp.
        task_image (exported (terrain_metrics cdem_mosaic aoi slope_of aspect_of)) = Inr t
      \<and> t = [(''elevation'', elev), (''slope'', slp), (''northness'', north), (''aspect'', asp)]
      \<and> bandNames t = [''elevation'', ''slope'', ''northness'', ''aspect'']
      \<and> (\<forall>p. north p = map_option (\<lambda>a. cos (a * pi / 180)) (asp p))
      \<and> ''eastness'' \<notin> set (bandNames t)
      \<and> names_of (eastness (terrain_metrics cdem_mosaic aoi slope_of aspect_of)) = [''eastness'']"
proof -
  from single_band_image[OF assms] obtain e where cdem: "cdem_mosaic = [(''elevation'', e)]" ..
  let ?dem = "[(''elevation'', \<lambda>p. if aoi p then e p else None)]"
  let ?slp = "slope_of ?dem" and ?asp = "aspect_of ?dem"
  let ?t = "[(''elevation'', \<lambda>p. if aoi p then e p else None), (''slope'', ?slp),
             (''northness'', north_data ?asp), (''aspect'', ?asp)]"
  have run: "task_image (exported (terrain_metrics cdem_mosaic aoi slope_of aspect_of)) = Inr ?t"
    unfolding cdem terrain_metrics_def Let_def dem_value
    by (simp only: northness_value slope_value aspect_value bind_ee_Inr terrain_bands
        export_task.simps terrain_script.simps)
  have east: "eastness (terrain_metrics cdem_mosaic aoi slope_of aspect_of)
      = Inr [(''eastness'', east_data ?asp)]"
    unfolding cdem terrain_metrics_def Let_def dem_value
    by (simp only: eastness_value terrain_script.simps)
  have names: "bandNames ?t = [''elevation'', ''slope'', ''northness'', ''aspect'']"
    by (simp add: bandNames_def)
  have north: "\<forall>p. north_data ?asp p = map_option (\<lambda>a. cos (a * pi / 180)) (?asp p)"
    by (rule allI) (rule north_data_value)
  have no_east: "''eastness'' \<notin> set (bandNames ?t)"
    by (simp add: bandNames_def)
  have east_names: "names_of (eastness (terrain_metrics cdem_mosaic aoi slope_of aspect_of))
      = [''eastness'']"
    unfolding east by (simp add: names_of_def bandNames_def)
  show ?thesis
    apply (rule exI[of _ ?t])
    apply (rule exI[of _ "\<lambda>p. if aoi p then e p else None"])
    apply (rule exI[of _ ?slp])
    apply (rule exI[of _ "north_data ?asp"])
    apply (rule exI[of _ ?asp])
    apply (intro conjI)
         apply (rule run)
        apply (rule refl)
       apply (rule names)
      apply (rule north)
     apply (rule no_east)
    apply (rule east_names)
    done
qed

theorem terrain_export_bands_witness:
  "bandNames flat_dem = [''elevation'']
   \<and> (\<exists>t elev slp north asp.
        task_image (exported (terrain_metrics flat_dem (\<lambda>p. True) (\<lambda>d p. Some 0) (\<lambda>d p. Some 0)))
          = Inr t
      \<and> t = [(''elevation'', elev), (''slope'', slp), (''northness'', north), (''aspect'', asp)]
      \<and> bandNames t = [''elevation'', ''slope'', ''northness'', ''aspect'']
      \<and> (\<forall>p. north p = map_option (\<lambda>a. cos (a * pi / 180)) (asp p))
      \<and> ''eastness'' \<notin> set (bandNames t)
      \<and> names_of (eastness (terrain_metrics flat_dem (\<lambda>p. True) (\<lambda>d p. Some 0) (\<lambda>d p. Some 0)))
          = [''eastness''])"
proof -
  have h: "bandNames flat_dem = [''elevation'']" by (simp add: flat_dem_def bandNames_def)
  from h terrain_export_bands[OF h, of "\<lambda>p. True" "\<lambda>d p. Some 0" "\<lambda>d p. Some 0"]
  show ?thesis by (rule conjI)
qed

section \<open>Exporting a collection (exportImageCollection, exportBandsByYear)\<close>





definition invalid_file_name :: "js_value \<Rightarrow> bool" where
  "invalid_file_name fileName = (\<not> js_truthy fileName \<or> js_typeof fileName \<noteq> ''string'')"






subsection \<open>What each image contributes\<close>

text \<open>
  The outcome of one file name: the message of the error thrown, or the accepted name.
  \<open>image_tasks\<close> and \<open>image_errors\<close> are the tasks and the printed lines of one image
  in \<open>exportImageCollection\<close>; \<open>band_tasks\<close> and \<open>band_errors\<close> are those of one image
  in \<open>exportBandsByYear\<close>, where the bands before the first failing one are submitted.
\<close>

definition name_outcome :: "string + js_value \<Rightarrow> string + string" where
  "name_outcome r =
     (case r of
        Inl message \<Rightarrow> Inl message
      | Inr (JS_string s) \<Rightarrow> if s = [] then Inl ''Invalid file name generated.'' else Inr s
      | Inr _ \<Rightarrow> Inl ''Invalid file name generated.'')"









lemma name_outcome_cases:
  "name_outcome r = (case r of Inl message \<Rightarrow> Inl message
     | Inr v \<Rightarrow> if invalid_file_name v then Inl ''Invalid file name generated.''
               else (case v of JS_string s \<Rightarrow> Inr s | _ \<Rightarrow> Inl ''Invalid file name generated.''))"
  by (cases r; simp add: name_outcome_def invalid_file_name_def split: js_value.splits)












end
